theory Spec2Isabelle
  imports Main "HOL-Library.Word"
begin

section \<open>Go values\<close>

text \<open>
  The worker is Go code. \<open>int64\<close> is a 64-bit word read as two's complement
  (\<open>sint\<close>); \<open>uint\<close> and \<open>int\<close> have the width of the platform, taken as 64 bits here
  (amd64, arm64); \<open>time.Duration\<close> is an \<open>int64\<close> count of nanoseconds. Arithmetic on
  all of them wraps around silently, as \<open>+\<close>, \<open>-\<close> and \<open>*\<close> on words do.
\<close>

type_synonym int64 = "64 word"
type_synonym uint = "64 word"
type_synonym goint = "64 word"
type_synonym Duration = "64 word"

definition Millisecond :: Duration where
  "Millisecond = 1000000"

definition Minute :: Duration where
  "Minute = 60000000000"

text \<open>
  An \<open>error\<close> value is either a \<open>*NoRetryError\<close> (worker.go) or a value of any other
  dynamic type, such as the ones \<open>errors.New\<close> and \<open>fmt.Errorf\<close> build. Both carry
  their message; \<open>nil\<close> is \<open>None\<close> of \<open>error option\<close>.
\<close>

datatype error = errorString string | NoRetryError string

fun Error :: "error \<Rightarrow> string" where
  "Error (errorString m) = m"
| "Error (NoRetryError m) = m"

text \<open>The type assertion \<open>_, isNoRetryError := runErr.(*NoRetryError)\<close>.\<close>

fun isNoRetryError :: "error \<Rightarrow> bool" where
  "isNoRetryError (NoRetryError m) = True"
| "isNoRetryError (errorString m) = False"

section \<open>The shared store\<close>

text \<open>
  Modelled from the spec: the key-naming functions (\<open>redisKeyJobs\<close>, \<open>redisKeyJobsLock\<close>
  and the others, which worker.go calls) are not among the sources. Section 3 of the
  specification lists the key families; a key is modelled by its family and the
  parameters it is built from, so that keys of different families, or of different
  names and pools, are different keys. The arguments are the namespace first, then as in
  the calls of worker.go. A uniqueness marker is the key \<open>uniqueKey t\<close>, for the text \<open>t\<close>
  that \<open>redisKeyUniqueJob\<close> returns.
\<close>

datatype key =
    redisKeyJobs string string
  | redisKeyJobsInProgress string string string
  | redisKeyJobsPaused string string
  | redisKeyJobsLock string string
  | redisKeyJobsLockInfo string string
  | redisKeyJobsConcurrency string string
  | redisKeyRetry string
  | redisKeyDead string
  | uniqueKey string

text \<open>
  The store holds, under a key, an integer-valued string (the lock counters, the pause
  and uniqueness markers), a list, a hash of integer fields or a sorted set (member to
  score). A list, hash or sorted set that is empty is an absent key, as in Redis.
  Scores are the integers the worker sends. The store is taken to answer every command:
  a transport failure, which the worker only logs, is outside the model.
\<close>

record redis =
  strings :: "key \<rightharpoonup> int"
  lists :: "key \<Rightarrow> string list"
  hashes :: "key \<Rightarrow> string \<Rightarrow> int"
  zsets :: "key \<Rightarrow> string \<rightharpoonup> int"

definition empty_redis :: redis where
  "empty_redis = \<lparr> strings = Map.empty, lists = (\<lambda>k. []), hashes = (\<lambda>k f. 0),
     zsets = (\<lambda>k. Map.empty) \<rparr>"

definition get_int :: "redis \<Rightarrow> key \<Rightarrow> int" where
  "get_int s k = (case strings s k of None \<Rightarrow> 0 | Some v \<Rightarrow> v)"

text \<open>\<open>LREM key count value\<close> with a positive count removes the first \<open>count\<close>
  occurrences of the value, from the head; with count 0 all of them; with a negative
  count the last \<open>-count\<close> occurrences.\<close>

fun lrem_head :: "nat \<Rightarrow> string \<Rightarrow> string list \<Rightarrow> string list" where
  "lrem_head 0 v xs = xs"
| "lrem_head (Suc n) v [] = []"
| "lrem_head (Suc n) v (x # xs) =
     (if x = v then lrem_head n v xs else x # lrem_head (Suc n) v xs)"

definition lrem :: "int \<Rightarrow> string \<Rightarrow> string list \<Rightarrow> string list" where
  "lrem count v xs =
     (if count = 0 then removeAll v xs
      else if 0 < count then lrem_head (nat count) v xs
      else rev (lrem_head (nat (- count)) v (rev xs)))"

datatype command =
    LREM key int string
  | DECR key
  | INCR key
  | HINCRBY key string int
  | ZADD key int string
  | LPUSH key string
  | DEL key

fun redis_do :: "command \<Rightarrow> redis \<Rightarrow> redis" where
  "redis_do (LREM k count v) s = s\<lparr> lists := (lists s)(k := lrem count v (lists s k)) \<rparr>"
| "redis_do (DECR k) s = s\<lparr> strings := (strings s)(k \<mapsto> get_int s k - 1) \<rparr>"
| "redis_do (INCR k) s = s\<lparr> strings := (strings s)(k \<mapsto> get_int s k + 1) \<rparr>"
| "redis_do (HINCRBY k f n) s =
     s\<lparr> hashes := (hashes s)(k := (hashes s k)(f := hashes s k f + n)) \<rparr>"
| "redis_do (ZADD k score m) s = s\<lparr> zsets := (zsets s)(k := (zsets s k)(m \<mapsto> score)) \<rparr>"
| "redis_do (LPUSH k v) s = s\<lparr> lists := (lists s)(k := v # lists s k) \<rparr>"
| "redis_do (DEL k) s =
     s\<lparr> strings := (strings s)(k := None), lists := (lists s)(k := []),
        hashes := (hashes s)(k := (\<lambda>f. 0)), zsets := (zsets s)(k := Map.empty) \<rparr>"

text \<open>\<open>MULTI\<close>, the queued commands, \<open>EXEC\<close>: the commands run in order as one step of
  the store, with no other client's command between them.\<close>

definition MULTI_EXEC :: "command list \<Rightarrow> redis \<Rightarrow> redis" where
  "MULTI_EXEC cmds s = fold redis_do cmds s"

section \<open>Reflected Go types\<close>

text \<open>
  Handlers, middleware and the context arrive as \<open>interface{}\<close> values and are checked
  through \<open>reflect\<close>. A value is modelled by its dynamic type; the checks of
  worker_pool.go read the kind of a type, and for a function its parameter and result
  types. \<open>NamedFuncT\<close> is a defined function type such as \<open>NextMiddlewareFunc\<close>.
\<close>

datatype gotype =
    StructT string
  | PtrT gotype
  | FuncT "gotype list" "gotype list"
  | NamedFuncT string "gotype list" "gotype list"
  | InterfaceT string
  | BasicT string

datatype Kind = Struct | Ptr | Func | Interface | OtherKind

fun Kind_of :: "gotype \<Rightarrow> Kind" where
  "Kind_of (StructT n) = Struct"
| "Kind_of (PtrT t) = Ptr"
| "Kind_of (FuncT ins outs) = Func"
| "Kind_of (NamedFuncT n ins outs) = Func"
| "Kind_of (InterfaceT n) = Interface"
| "Kind_of (BasicT n) = OtherKind"

fun In :: "gotype \<Rightarrow> gotype list" where
  "In (FuncT ins outs) = ins"
| "In (NamedFuncT n ins outs) = ins"
| "In t = []"

fun Out :: "gotype \<Rightarrow> gotype list" where
  "Out (FuncT ins outs) = outs"
| "Out (NamedFuncT n ins outs) = outs"
| "Out t = []"

text \<open>\<open>reflect.TypeOf(e).Elem()\<close> for \<open>var e *error\<close>, \<open>reflect.TypeOf(j)\<close> for
  \<open>var j *Job\<close>, and \<open>reflect.TypeOf(nfn)\<close> for \<open>var nfn NextMiddlewareFunc\<close>.\<close>

definition errorT :: gotype where
  "errorT = InterfaceT ''error''"

definition JobPtrT :: gotype where
  "JobPtrT = PtrT (StructT ''work.Job'')"

definition NextMiddlewareFuncT :: gotype where
  "NextMiddlewareFuncT = NamedFuncT ''work.NextMiddlewareFunc'' [] [errorT]"

section \<open>Jobs, job types and workers\<close>

type_synonym args = "(string \<times> string) list"

text \<open>
  Modelled from the spec: the \<open>Job\<close> struct and its method \<open>failed\<close> are declared in a
  file that is not among the sources. The fields are the ones worker.go reads and
  writes and section 3 of the specification lists; \<open>rawJSON\<close>, \<open>dequeuedFrom\<close> and
  \<open>inProgQueue\<close> are what \<open>newJob\<close> receives from the fetch. \<open>failed\<close> bumps \<open>fails\<close>
  and records the message and the time (section 4.4, step 8).
\<close>

record Job =
  Name :: string
  ID :: string
  EnqueuedAt :: int64
  Args :: args
  Unique :: bool
  Fails :: int64
  LastErr :: string
  FailedAt :: int64
  ScheduledAt :: int64
  Success :: bool
  rawJSON :: string
  dequeuedFrom :: key
  inProgQueue :: key

definition failed :: "Job \<Rightarrow> error \<Rightarrow> int64 \<Rightarrow> Job" where
  "failed job err now = job\<lparr> Fails := Fails job + 1, LastErr := Error err, FailedAt := now \<rparr>"

text \<open>
  \<open>JobOptions\<close>, \<open>middlewareHandler\<close>, \<open>jobType\<close> (which embeds \<open>JobOptions\<close>) and the
  fields of \<open>worker\<close> that the claims read, from worker_pool.go and worker.go. A function
  value is kept as its type. Where two structs have a field of the same name, the later
  record's field carries a prefix: \<open>jtName\<close>, \<open>jtMiddleware\<close> and \<open>jtHook\<close> are \<open>Name\<close>,
  \<open>middleware\<close> and \<open>hook\<close> of \<open>jobType\<close>, and \<open>mwIsGeneric\<close> is \<open>IsGeneric\<close> of
  \<open>middlewareHandler\<close>.
\<close>

record JobOptions =
  Priority :: uint
  MaxFails :: uint
  SkipDead :: bool
  MaxConcurrency :: uint
  Backoff :: "(Job \<Rightarrow> int64) option"
  StartingDeadline :: int64
  RetryOnStart :: bool
  Timeout :: goint

record middlewareHandler =
  mwIsGeneric :: bool
  DynamicMiddleware :: gotype

record jobType = JobOptions +
  jtName :: string
  IsGeneric :: bool
  DynamicHandler :: gotype
  jtMiddleware :: "middlewareHandler list"
  jtHook :: "middlewareHandler list"

record worker =
  workerID :: string
  poolID :: string
  namespace :: string
  jobTypes :: "string \<rightharpoonup> jobType"
  middleware :: "middlewareHandler list"
  hook :: "middlewareHandler list"
  contextType :: gotype

text \<open>
  What a worker does besides store commands is kept as a trace of events: the error
  log, the observer calls, the start of the handler task (\<open>go runJob\<close>), the hook chain,
  the message printed at a timeout and the acknowledgements of the clear, drain and stop
  signals.
\<close>

datatype event =
    LogError string error
  | ObserveStarted string string args
  | RunJob Job "middlewareHandler list"
  | RunHook Job "middlewareHandler list"
  | Printf string
  | DoneClearing
  | DoneDraining
  | DoneStopping
  | ObserveDone string string "error option"

record world =
  store :: redis
  trace :: "event list"

text \<open>The events that start the handler task and the hook chain.\<close>

fun is_RunJob :: "event \<Rightarrow> bool" where
  "is_RunJob (RunJob job mw) = True"
| "is_RunJob ev = False"

fun is_RunHook :: "event \<Rightarrow> bool" where
  "is_RunHook (RunHook job hk) = True"
| "is_RunHook ev = False"

definition logError :: "string \<Rightarrow> error \<Rightarrow> world \<Rightarrow> world" where
  "logError k err x = x\<lparr> trace := trace x @ [LogError k err] \<rparr>"

definition emit :: "event \<Rightarrow> world \<Rightarrow> world" where
  "emit e x = x\<lparr> trace := trace x @ [e] \<rparr>"

text \<open>
  Three functions of the repository that worker.go calls are not among the sources and
  are parameters of the model: \<open>job.serialize\<close>, which returns the bytes or an error;
  \<open>redisKeyUniqueJob\<close>, which returns the text of a key and an error (the code goes on
  with the text it got in either case); and \<open>newJob\<close>, which decodes a fetched payload.
\<close>

record env =
  serialize :: "Job \<Rightarrow> error + string"
  redisKeyUniqueJob :: "string \<Rightarrow> string \<Rightarrow> args \<Rightarrow> string \<times> error option"
  newJob :: "string \<Rightarrow> key \<Rightarrow> key \<Rightarrow> error + Job"

section \<open>worker.go: completing a job\<close>

definition removeJobFromInProgress :: "worker \<Rightarrow> Job \<Rightarrow> world \<Rightarrow> world" where
  "removeJobFromInProgress w job x =
     x\<lparr> store := MULTI_EXEC
        [ LREM (inProgQueue job) 1 (rawJSON job),
          DECR (redisKeyJobsLock (namespace w) (Name job)),
          HINCRBY (redisKeyJobsLockInfo (namespace w) (Name job)) (poolID w) (- 1) ]
        (store x) \<rparr>"

text \<open>\<open>r\<close> is the value \<open>rand.Int63n(30)\<close> returns, which lies in \<open>[0, 30)\<close>.\<close>

definition defaultBackoffCalculator :: "Job \<Rightarrow> int64 \<Rightarrow> int64" where
  "defaultBackoffCalculator job r =
     (let fails = Fails job
      in (fails * fails * fails * fails) + 15 + (r * (fails + 1)))"

text \<open>\<open>now\<close> is what \<open>nowEpochSeconds()\<close> returns at the call.\<close>

definition addToRetry :: "env \<Rightarrow> worker \<Rightarrow> Job \<Rightarrow> error \<Rightarrow> int64 \<Rightarrow> int64 \<Rightarrow> world \<Rightarrow> world" where
  "addToRetry e w job runErr now r x =
     (case serialize e job of
        Inl err \<Rightarrow> logError ''worker.add_to_retry'' err x
      | Inr raw \<Rightarrow>
          (let chosen = (case jobTypes w (Name job) of Some jt \<Rightarrow> Backoff jt | None \<Rightarrow> None);
               backoff = (case chosen of
                            None \<Rightarrow> defaultBackoffCalculator job r
                          | Some f \<Rightarrow> f job)
           in x\<lparr> store := MULTI_EXEC
                [ LREM (inProgQueue job) 1 (rawJSON job),
                  DECR (redisKeyJobsLock (namespace w) (Name job)),
                  HINCRBY (redisKeyJobsLockInfo (namespace w) (Name job)) (poolID w) (- 1),
                  ZADD (redisKeyRetry (namespace w)) (sint (now + backoff)) raw ]
                (store x) \<rparr>))"

definition addToDead :: "env \<Rightarrow> worker \<Rightarrow> Job \<Rightarrow> error \<Rightarrow> int64 \<Rightarrow> world \<Rightarrow> world" where
  "addToDead e w job runErr now x =
     (case serialize e job of
        Inl err \<Rightarrow> logError ''worker.add_to_dead.serialize'' err x
      | Inr raw \<Rightarrow>
          x\<lparr> store := MULTI_EXEC
             [ LREM (inProgQueue job) 1 (rawJSON job),
               DECR (redisKeyJobsLock (namespace w) (Name job)),
               HINCRBY (redisKeyJobsLockInfo (namespace w) (Name job)) (poolID w) (- 1),
               ZADD (redisKeyDead (namespace w)) (sint now) raw ]
             (store x) \<rparr>)"

text \<open>\<open>failsRemaining := int64(jt.MaxFails) - job.Fails\<close>: the conversion keeps the 64
  bits, the subtraction wraps, the comparison with 0 is signed.\<close>

definition failsRemaining :: "jobType \<Rightarrow> Job \<Rightarrow> int64" where
  "failsRemaining jt job = MaxFails jt - Fails job"

definition addToRetryOrDead ::
    "env \<Rightarrow> worker \<Rightarrow> jobType \<Rightarrow> Job \<Rightarrow> error \<Rightarrow> int64 \<Rightarrow> int64 \<Rightarrow> world \<Rightarrow> world" where
  "addToRetryOrDead e w jt job runErr now r x =
     (if 0 < sint (failsRemaining jt job) \<and> \<not> isNoRetryError runErr
      then addToRetry e w job runErr now r x
      else if \<not> SkipDead jt then addToDead e w job runErr now x
      else removeJobFromInProgress w job x)"

section \<open>Fetching a job\<close>

text \<open>
  One entry of the priority sampler: the priority and the six keys of a job type, as
  \<open>updateMiddlewareAndJobTypes\<close> passes them to \<open>sampler.add\<close> and \<open>fetchJob\<close> reads
  them back. The sampler's random order is an input of the model: \<open>names\<close> is the order
  in which \<open>sampler.sample()\<close> left the job types for this fetch.
\<close>

record sampleItem =
  priority :: uint
  redisJobs :: key
  redisJobsInProg :: key
  redisJobsPaused :: key
  redisJobsLock :: key
  redisJobsLockInfo :: key
  redisJobsMaxConcurrency :: key

definition sampler_add :: "worker \<Rightarrow> jobType \<Rightarrow> sampleItem" where
  "sampler_add w jt =
     \<lparr> priority = Priority jt,
       redisJobs = redisKeyJobs (namespace w) (jtName jt),
       redisJobsInProg = redisKeyJobsInProgress (namespace w) (poolID w) (jtName jt),
       redisJobsPaused = redisKeyJobsPaused (namespace w) (jtName jt),
       redisJobsLock = redisKeyJobsLock (namespace w) (jtName jt),
       redisJobsLockInfo = redisKeyJobsLockInfo (namespace w) (jtName jt),
       redisJobsMaxConcurrency = redisKeyJobsConcurrency (namespace w) (jtName jt) \<rparr>"

definition samples :: "worker \<Rightarrow> string list \<Rightarrow> sampleItem list" where
  "samples w names = map (sampler_add w) (List.map_filter (jobTypes w) names)"

text \<open>
  Modelled from the spec: the fetch script \<open>redisLuaFetchJob\<close> is a constant that is
  not among the sources. Section 4.2 of the specification gives its steps: for each
  tuple in order, skip it when the pause flag exists and is truthy, or when the
  concurrency cap is present, positive and reached by the lock; pop the pending list
  from the right and skip the tuple when it is empty; push the payload onto the
  in-progress list, increment the lock and the pool's field of the lock info, and
  return the payload with the two list keys. When every tuple is skipped the reply is
  nil.
\<close>

fun redisLuaFetchJob ::
    "sampleItem list \<Rightarrow> string \<Rightarrow> redis \<Rightarrow> (string \<times> key \<times> key) option \<times> redis" where
  "redisLuaFetchJob [] pool s = (None, s)"
| "redisLuaFetchJob (t # ts) pool s =
     (if (case strings s (redisJobsPaused t) of None \<Rightarrow> False | Some v \<Rightarrow> v \<noteq> 0)
      then redisLuaFetchJob ts pool s
      else if (case strings s (redisJobsMaxConcurrency t) of
                 None \<Rightarrow> False
               | Some m \<Rightarrow> 0 < m \<and> m \<le> get_int s (redisJobsLock t))
      then redisLuaFetchJob ts pool s
      else if lists s (redisJobs t) = [] then redisLuaFetchJob ts pool s
      else
        (let payload = last (lists s (redisJobs t));
             popped = s\<lparr> lists := (lists s)(redisJobs t := butlast (lists s (redisJobs t))) \<rparr>
         in (Some (payload, redisJobs t, redisJobsInProg t),
             fold redis_do
               [ LPUSH (redisJobsInProg t) payload,
                 INCR (redisJobsLock t),
                 HINCRBY (redisJobsLockInfo t) pool 1 ]
               popped)))"

section \<open>Sequences of fetches and completions\<close>

text \<open>
  The operations that move a record into and out of an in-progress list: the fetch of
  a worker and the three completions of worker.go. A completion is successful when the
  worker completes a job it holds: the job's in-progress key is the one of the worker's
  pool for the job's name, and the record is in that list.
\<close>

datatype op =
    OpFetch worker "string list"
  | OpRemove worker Job
  | OpRetry worker Job error int64 int64
  | OpDead worker Job error int64

fun op_worker :: "op \<Rightarrow> worker" where
  "op_worker (OpFetch w names) = w"
| "op_worker (OpRemove w job) = w"
| "op_worker (OpRetry w job runErr now r) = w"
| "op_worker (OpDead w job runErr now) = w"

definition holds_job :: "worker \<Rightarrow> Job \<Rightarrow> world \<Rightarrow> bool" where
  "holds_job w job x \<longleftrightarrow>
     inProgQueue job = redisKeyJobsInProgress (namespace w) (poolID w) (Name job) \<and>
     rawJSON job \<in> set (lists (store x) (inProgQueue job))"

fun perform :: "env \<Rightarrow> op \<Rightarrow> world \<Rightarrow> world" where
  "perform e (OpFetch w names) x =
     x\<lparr> store := snd (redisLuaFetchJob (samples w names) (poolID w) (store x)) \<rparr>"
| "perform e (OpRemove w job) x = removeJobFromInProgress w job x"
| "perform e (OpRetry w job runErr now r) x = addToRetry e w job runErr now r x"
| "perform e (OpDead w job runErr now) x = addToDead e w job runErr now x"

fun successful :: "op \<Rightarrow> world \<Rightarrow> bool" where
  "successful (OpFetch w names) x = True"
| "successful (OpRemove w job) x = holds_job w job x"
| "successful (OpRetry w job runErr now r) x = holds_job w job x"
| "successful (OpDead w job runErr now) x = holds_job w job x"

fun run :: "env \<Rightarrow> op list \<Rightarrow> world \<Rightarrow> world" where
  "run e [] x = x"
| "run e (o1 # ops) x = run e ops (perform e o1 x)"

fun successful_run :: "env \<Rightarrow> op list \<Rightarrow> world \<Rightarrow> bool" where
  "successful_run e [] x = True"
| "successful_run e (o1 # ops) x \<longleftrightarrow> successful o1 x \<and> successful_run e ops (perform e o1 x)"

definition total_in_progress :: "redis \<Rightarrow> string list \<Rightarrow> string \<Rightarrow> string \<Rightarrow> nat" where
  "total_in_progress s pools ns n =
     sum_list (map (\<lambda>p. length (lists s (redisKeyJobsInProgress ns p n))) pools)"

definition lock_invariant :: "string list \<Rightarrow> redis \<Rightarrow> bool" where
  "lock_invariant pools s \<longleftrightarrow>
     (\<forall>ns n. get_int s (redisKeyJobsLock ns n) = int (total_in_progress s pools ns n)) \<and>
     (\<forall>ns n p. hashes s (redisKeyJobsLockInfo ns n) p =
                int (length (lists s (redisKeyJobsInProgress ns p n)))) \<and>
     (\<forall>ns n p. p \<notin> set pools \<longrightarrow> lists s (redisKeyJobsInProgress ns p n) = [])"

definition initial_world :: world where
  "initial_world = \<lparr> store = empty_redis, trace = [] \<rparr>"

section \<open>worker.go: processing a job\<close>

text \<open>
  What happens while \<open>processJob\<close> waits is an input of the model: which case of the
  \<open>select\<close> fires (the timer, the handler's result with its error, or the clear signal),
  the two readings of the clock (in \<open>job.failed\<close> and in the routing) and the random
  number of the default backoff.
\<close>

datatype outcome = TimedOut | Returned "error option" | Cleared

record inputs =
  outcome :: outcome
  nowFailed :: int64
  nowRoute :: int64
  rnd :: int64

definition effective_timeout :: "jobType \<Rightarrow> Duration" where
  "effective_timeout jt =
     (let timeout = Timeout jt * Millisecond
      in if sint timeout \<le> 0 then Minute * 1440 * 14 else timeout)"

definition deleteUniqueJob :: "env \<Rightarrow> worker \<Rightarrow> Job \<Rightarrow> world \<Rightarrow> world" where
  "deleteUniqueJob e w job x =
     (let (text, err) = redisKeyUniqueJob e (namespace w) (Name job) (Args job);
          x1 = (case err of
                  Some er \<Rightarrow> logError ''worker.delete_unique_job.key'' er x
                | None \<Rightarrow> x)
      in x1\<lparr> store := redis_do (DEL (uniqueKey text)) (store x1) \<rparr>)"

text \<open>The body of \<open>processJob\<close> without the deferred call; it returns the job as the
  code left it and the new state.\<close>

definition processJob_body :: "env \<Rightarrow> worker \<Rightarrow> Job \<Rightarrow> inputs \<Rightarrow> world \<Rightarrow> Job \<times> world" where
  "processJob_body e w job i x =
     (case jobTypes w (Name job) of
        Some jt \<Rightarrow>
          if 0 < sint (StartingDeadline jt) \<and> 0 < sint (ScheduledAt job)
               \<and> sint (ScheduledAt job) < sint (StartingDeadline jt)
          then (job, removeJobFromInProgress w job x)
          else
            (let timeout = effective_timeout jt;
                 x1 = emit (ObserveStarted (Name job) (ID job) (Args job)) x;
                 mw = middleware w @ jtMiddleware jt;
                 hk = hook w @ jtHook jt;
                 x2 = emit (RunJob job mw) x1;
                 (runErr, job1, x3) =
                   (case outcome i of
                      TimedOut \<Rightarrow>
                        if 0 < sint timeout
                        then (Some (errorString ''Run Job Timeout''), job,
                              emit (Printf (''Job '' @ Name job @ '' Timeout'')) x2)
                        else (None, job, x2)
                    | Returned err \<Rightarrow>
                        (let job1 = job\<lparr> Success := (err = None) \<rparr>
                         in (err, job1, emit (RunHook job1 hk) x2))
                    | Cleared \<Rightarrow> (None, job, emit DoneClearing x2));
                 x4 = emit (ObserveDone (Name job) (ID job) runErr) x3
             in (case runErr of
                   Some err \<Rightarrow>
                     (let job2 = failed job1 err (nowFailed i)
                      in (job2, addToRetryOrDead e w jt job2 err (nowRoute i) (rnd i) x4))
                 | None \<Rightarrow> (job1, removeJobFromInProgress w job1 x4)))
      | None \<Rightarrow>
          (let runErr = errorString ''stray job: no handler'';
               x1 = logError ''process_job.stray'' runErr x;
               job1 = failed job runErr (nowFailed i)
           in (job1, addToDead e w job1 runErr (nowRoute i) x1)))"

text \<open>The deferred function runs when the body returns, on every path.\<close>

definition processJob :: "env \<Rightarrow> worker \<Rightarrow> Job \<Rightarrow> inputs \<Rightarrow> world \<Rightarrow> Job \<times> world" where
  "processJob e w job i x =
     (let (job', x') = processJob_body e w job i x
      in (job', if Unique job' then deleteUniqueJob e w job' x' else x'))"

section \<open>worker.go: the loop\<close>

text \<open>
  \<open>fetchJob\<close> runs the script and decodes its reply. A transport error of the call is an
  input; the script's reply, when there is one, always has the three byte strings, so
  the three checks of the reply's shape never fail and are left out.
\<close>

definition fetchJob ::
    "env \<Rightarrow> worker \<Rightarrow> string list \<Rightarrow> error option \<Rightarrow> world \<Rightarrow> (error + Job option) \<times> world" where
  "fetchJob e w names transport x =
     (case transport of
        Some err \<Rightarrow> (Inl err, x)
      | None \<Rightarrow>
          (case redisLuaFetchJob (samples w names) (poolID w) (store x) of
             (None, s) \<Rightarrow> (Inr None, x\<lparr> store := s \<rparr>)
           | (Some (raw, src, inprog), s) \<Rightarrow>
               (case newJob e raw src inprog of
                  Inl err \<Rightarrow> (Inl err, x\<lparr> store := s \<rparr>)
                | Inr job \<Rightarrow> (Inr (Some job), x\<lparr> store := s \<rparr>))))"

definition sleepBackoffsInMilliseconds :: "int64 list" where
  "sleepBackoffsInMilliseconds = [0, 10, 100, 1000, 5000]"

text \<open>The variables of \<open>loop\<close>, and the duration of the last \<open>timer.Reset\<close>.\<close>

record loopState =
  drained :: bool
  consequtiveNoJobs :: int64
  timer :: Duration

definition initial_loopState :: loopState where
  "initial_loopState = \<lparr> drained = False, consequtiveNoJobs = 0, timer = 0 \<rparr>"

text \<open>The channel that is ready in the \<open>select\<close> of the loop; for the timer, with the
  inputs of the fetch and of the job's processing.\<close>

datatype signal =
    stopChan
  | drainChan
  | timerC "string list" "error option" inputs

datatype loop_result =
    Running loopState world
  | Exited world
  | IndexOutOfRange

definition loop_step :: "env \<Rightarrow> worker \<Rightarrow> signal \<Rightarrow> loopState \<Rightarrow> world \<Rightarrow> loop_result" where
  "loop_step e w sig st x =
     (case sig of
        stopChan \<Rightarrow> Exited (emit DoneStopping x)
      | drainChan \<Rightarrow> Running (st\<lparr> drained := True, timer := 0 \<rparr>) x
      | timerC names transport i \<Rightarrow>
          (case fetchJob e w names transport x of
             (Inl err, x1) \<Rightarrow>
               Running (st\<lparr> timer := 10 * Millisecond \<rparr>) (logError ''worker.fetch'' err x1)
           | (Inr (Some job), x1) \<Rightarrow>
               Running (st\<lparr> consequtiveNoJobs := 0, timer := 0 \<rparr>)
                 (snd (processJob e w job i x1))
           | (Inr None, x1) \<Rightarrow>
               (let x2 = (if drained st then emit DoneDraining x1 else x1);
                    st1 = (if drained st then st\<lparr> drained := False \<rparr> else st);
                    n = consequtiveNoJobs st1 + 1;
                    len = of_nat (length sleepBackoffsInMilliseconds) :: int64;
                    idx = (if sint len \<le> sint n then len - 1 else n)
                in if sint idx < 0 \<or> int (length sleepBackoffsInMilliseconds) \<le> sint idx
                   then IndexOutOfRange
                   else Running
                          (st1\<lparr> consequtiveNoJobs := n,
                                timer := (sleepBackoffsInMilliseconds ! nat (sint idx)) * Millisecond \<rparr>)
                          x2)))"

text \<open>The loop over the signals that arrive, from the state in which \<open>loop\<close> starts.\<close>

fun loop_run :: "env \<Rightarrow> worker \<Rightarrow> signal list \<Rightarrow> loopState \<Rightarrow> world \<Rightarrow> loop_result" where
  "loop_run e w [] st x = Running st x"
| "loop_run e w (sig # sigs) st x =
     (case loop_step e w sig st x of
        Running st' x' \<Rightarrow> loop_run e w sigs st' x'
      | Exited x' \<Rightarrow> Exited x'
      | IndexOutOfRange \<Rightarrow> IndexOutOfRange)"

section \<open>worker_pool.go: pools and registration\<close>

text \<open>
  A panic is a result of the model. The long text that \<open>instructiveMessage\<close> formats is
  kept as its arguments.
\<close>

datatype panic =
    PanicString string
  | InstructiveMessage gotype string string string gotype
  | RuntimeError string

datatype redisPool = RedisPool string

text \<open>The fields of \<open>WorkerPool\<close> that registration reads and writes. A field whose
  name \<open>worker\<close> already has carries the prefix \<open>wp\<close>; a nil slice is the empty list
  (the code never builds an empty slice that is not nil).\<close>

record WorkerPool =
  workerPoolID :: string
  concurrency :: uint
  wpNamespace :: string
  wpPool :: redisPool
  wpContextType :: gotype
  wpJobTypes :: "string \<rightharpoonup> jobType"
  wpMiddleware :: "middlewareHandler list"
  wpHook :: "middlewareHandler list"
  started :: bool
  workers :: "worker list"

definition updateMiddlewareAndJobTypes ::
    "worker \<Rightarrow> middlewareHandler list \<Rightarrow> middlewareHandler list \<Rightarrow> (string \<rightharpoonup> jobType) \<Rightarrow> worker" where
  "updateMiddlewareAndJobTypes w mw hk jts =
     (let w1 = (if mw \<noteq> [] then w\<lparr> middleware := mw \<rparr> else w);
          w2 = (if hk \<noteq> [] then w1\<lparr> hook := hk \<rparr> else w1)
      in w2\<lparr> jobTypes := jts \<rparr>)"

definition newWorker ::
    "string \<Rightarrow> string \<Rightarrow> string \<Rightarrow> gotype \<Rightarrow> middlewareHandler list \<Rightarrow> middlewareHandler list
     \<Rightarrow> (string \<rightharpoonup> jobType) \<Rightarrow> worker" where
  "newWorker wid ns pid ctxType mw hk jts =
     updateMiddlewareAndJobTypes
       \<lparr> workerID = wid, poolID = pid, namespace = ns, jobTypes = Map.empty,
         middleware = [], hook = [], contextType = ctxType \<rparr>
       mw hk jts"

definition validateContextType :: "gotype \<Rightarrow> panic + unit" where
  "validateContextType ctxType =
     (if Kind_of ctxType \<noteq> Struct
      then Inl (PanicString ''work: Context needs to be a struct type'')
      else Inr ())"

definition isValidHandlerType :: "gotype \<Rightarrow> gotype \<Rightarrow> bool" where
  "isValidHandlerType ctxType fnType =
     (if Kind_of fnType \<noteq> Func then False
      else
        (let numIn = length (In fnType); numOut = length (Out fnType)
         in if numOut \<noteq> 1 then False
            else if Out fnType ! 0 \<noteq> errorT then False
            else if numIn = 1 then
              (if In fnType ! 0 \<noteq> JobPtrT then False else True)
            else if numIn = 2 then
              (if In fnType ! 0 \<noteq> PtrT ctxType then False
               else if In fnType ! 1 \<noteq> JobPtrT then False
               else True)
            else False))"

definition isValidMiddlewareType :: "gotype \<Rightarrow> gotype \<Rightarrow> bool" where
  "isValidMiddlewareType ctxType fnType =
     (if Kind_of fnType \<noteq> Func then False
      else
        (let numIn = length (In fnType); numOut = length (Out fnType)
         in if numOut \<noteq> 1 then False
            else if Out fnType ! 0 \<noteq> errorT then False
            else if numIn = 2 then
              (if In fnType ! 0 \<noteq> JobPtrT then False
               else if In fnType ! 1 \<noteq> NextMiddlewareFuncT then False
               else True)
            else if numIn = 3 then
              (if In fnType ! 0 \<noteq> PtrT ctxType then False
               else if In fnType ! 1 \<noteq> JobPtrT then False
               else if In fnType ! 2 \<noteq> NextMiddlewareFuncT then False
               else True)
            else False))"

text \<open>\<open>fn\<close> is an \<open>interface{}\<close>: \<open>None\<close> is nil, for which \<open>reflect.ValueOf(fn).Type()\<close>
  panics; otherwise the dynamic type of the value.\<close>

definition validateHandlerType :: "gotype \<Rightarrow> gotype option \<Rightarrow> panic + unit" where
  "validateHandlerType ctxType vfn =
     (case vfn of
        None \<Rightarrow> Inl (RuntimeError ''reflect: call of reflect.Value.Type on zero Value'')
      | Some fnType \<Rightarrow>
          if \<not> isValidHandlerType ctxType fnType
          then Inl (InstructiveMessage fnType ''a handler'' ''handler'' ''job *work.Job'' ctxType)
          else Inr ())"

definition validateMiddlewareType :: "gotype \<Rightarrow> gotype option \<Rightarrow> panic + unit" where
  "validateMiddlewareType ctxType vfn =
     (case vfn of
        None \<Rightarrow> Inl (RuntimeError ''reflect: call of reflect.Value.Type on zero Value'')
      | Some fnType \<Rightarrow>
          if \<not> isValidMiddlewareType ctxType fnType
          then Inl (InstructiveMessage fnType ''middleware'' ''middleware''
                      ''job *work.Job, next NextMiddlewareFunc'' ctxType)
          else Inr ())"

fun funcToMiddleware :: "gotype option list \<Rightarrow> gotype \<Rightarrow> panic + middlewareHandler list" where
  "funcToMiddleware [] ctxType = Inr []"
| "funcToMiddleware (fn # fns) ctxType =
     (case validateMiddlewareType ctxType fn of
        Inl p \<Rightarrow> Inl p
      | Inr u \<Rightarrow>
          (case funcToMiddleware fns ctxType of
             Inl p \<Rightarrow> Inl p
           | Inr rest \<Rightarrow>
               Inr (\<lparr> mwIsGeneric = (fn = Some (FuncT [JobPtrT, NextMiddlewareFuncT] [errorT])),
                      DynamicMiddleware = the fn \<rparr> # rest)))"

definition applyDefaultsAndValidate :: "JobOptions \<Rightarrow> panic + JobOptions" where
  "applyDefaultsAndValidate jobOpts =
     (let o1 = (if Priority jobOpts = 0 then jobOpts\<lparr> Priority := 1 \<rparr> else jobOpts);
          o2 = (if MaxFails o1 = 0 then o1\<lparr> MaxFails := 4 \<rparr> else o1)
      in if 100000 < Priority o2
         then Inl (PanicString ''work: JobOptions.Priority must be between 1 and 100000'')
         else Inr o2)"

definition JobWithOptionsAndMiddlewares ::
    "WorkerPool \<Rightarrow> string \<Rightarrow> JobOptions \<Rightarrow> gotype option \<Rightarrow> gotype option list \<Rightarrow> gotype option list
     \<Rightarrow> panic + WorkerPool" where
  "JobWithOptionsAndMiddlewares wp name jobOpts fn fns hks =
     (case applyDefaultsAndValidate jobOpts of
        Inl p \<Rightarrow> Inl p
      | Inr opts \<Rightarrow>
     (case validateHandlerType (wpContextType wp) fn of
        Inl p \<Rightarrow> Inl p
      | Inr u \<Rightarrow>
     (case funcToMiddleware fns (wpContextType wp) of
        Inl p \<Rightarrow> Inl p
      | Inr jobMiddleware \<Rightarrow>
     (case funcToMiddleware hks (wpContextType wp) of
        Inl p \<Rightarrow> Inl p
      | Inr hookMiddleware \<Rightarrow>
          (let jt = JobOptions.extend opts
                      (jobType.fields name (fn = Some (FuncT [JobPtrT] [errorT])) (the fn)
                         jobMiddleware hookMiddleware);
               jts = (wpJobTypes wp)(name \<mapsto> jt)
           in Inr (wp\<lparr> wpJobTypes := jts,
                        workers := map (\<lambda>w. updateMiddlewareAndJobTypes w (wpMiddleware wp)
                                              (wpHook wp) jts) (workers wp) \<rparr>))))))"

definition JobWithOptions :: "WorkerPool \<Rightarrow> string \<Rightarrow> JobOptions \<Rightarrow> gotype option \<Rightarrow> panic + WorkerPool" where
  "JobWithOptions wp name jobOpts fn = JobWithOptionsAndMiddlewares wp name jobOpts fn [] []"

text \<open>\<open>JobOptions{}\<close>, the zero value.\<close>

definition zero_JobOptions :: JobOptions where
  "zero_JobOptions =
     \<lparr> Priority = 0, MaxFails = 0, SkipDead = False, MaxConcurrency = 0, Backoff = None,
       StartingDeadline = 0, RetryOnStart = False, Timeout = 0 \<rparr>"

definition Job_register :: "WorkerPool \<Rightarrow> string \<Rightarrow> gotype option \<Rightarrow> panic + WorkerPool" where
  "Job_register wp name fn = JobWithOptionsAndMiddlewares wp name zero_JobOptions fn [] []"

definition Middlewares :: "WorkerPool \<Rightarrow> gotype option list \<Rightarrow> panic + WorkerPool" where
  "Middlewares wp fns =
     (case funcToMiddleware fns (wpContextType wp) of
        Inl p \<Rightarrow> Inl p
      | Inr mw \<Rightarrow>
          Inr (wp\<lparr> wpMiddleware := mw,
                    workers := map (\<lambda>w. updateMiddlewareAndJobTypes w mw [] (wpJobTypes wp))
                                 (workers wp) \<rparr>))"

definition Hooks :: "WorkerPool \<Rightarrow> gotype option list \<Rightarrow> panic + WorkerPool" where
  "Hooks wp fns =
     (case funcToMiddleware fns (wpContextType wp) of
        Inl p \<Rightarrow> Inl p
      | Inr hk \<Rightarrow>
          Inr (wp\<lparr> wpHook := hk,
                    workers := map (\<lambda>w. updateMiddlewareAndJobTypes w [] hk (wpJobTypes wp))
                                 (workers wp) \<rparr>))"

text \<open>
  \<open>NewWorkerPool\<close>: \<open>ctx\<close> is an \<open>interface{}\<close> (\<open>None\<close> is nil, whose \<open>reflect.TypeOf\<close> is a
  nil \<open>Type\<close>, on which \<open>Kind()\<close> panics); \<open>pool\<close> is a pointer (\<open>None\<close> is nil).
  \<open>makeIdentifier\<close> is not among the sources: \<open>ids k\<close> is what its \<open>k\<close>-th call returns.
  The pool ends by registering its drain job, whose handler is a \<open>func(*Job) error\<close>.
\<close>

definition NewWorkerPool ::
    "(nat \<Rightarrow> string) \<Rightarrow> gotype option \<Rightarrow> uint \<Rightarrow> string \<Rightarrow> redisPool option \<Rightarrow> panic + WorkerPool" where
  "NewWorkerPool ids ctx conc ns pool =
     (case pool of
        None \<Rightarrow> Inl (PanicString ''NewWorkerPool needs a non-nil *redis.Pool'')
      | Some rp \<Rightarrow>
     (case ctx of
        None \<Rightarrow> Inl (RuntimeError ''invalid memory address or nil pointer dereference'')
      | Some ctxType \<Rightarrow>
     (case validateContextType ctxType of
        Inl p \<Rightarrow> Inl p
      | Inr u \<Rightarrow>
          (let wp = \<lparr> workerPoolID = ids 0, concurrency = conc, wpNamespace = ns, wpPool = rp,
                      wpContextType = ctxType, wpJobTypes = Map.empty, wpMiddleware = [],
                      wpHook = [], started = False, workers = [] \<rparr>;
               ws = map (\<lambda>k. newWorker (ids (Suc k)) ns (ids 0) ctxType [] [] Map.empty)
                      [0 ..< unat conc]
           in Job_register (wp\<lparr> workers := ws \<rparr>) (''WorkerDrain:'' @ ids 0)
                (Some (FuncT [JobPtrT] [errorT]))))))"

section \<open>Example values\<close>

text \<open>A pool \<open>p1\<close> in namespace \<open>ns\<close> with one job type \<open>email\<close> (priority 1, three
  fails allowed, no timeout option), one worker, and a fetched job of that name.\<close>

definition ex_jobType :: jobType where
  "ex_jobType =
     \<lparr> Priority = 1, MaxFails = 3, SkipDead = False, MaxConcurrency = 0, Backoff = None,
       StartingDeadline = 0, RetryOnStart = False, Timeout = 0,
       jtName = ''email'', IsGeneric = True, DynamicHandler = FuncT [JobPtrT] [errorT],
       jtMiddleware = [], jtHook = [] \<rparr>"

definition ex_worker :: worker where
  "ex_worker =
     \<lparr> workerID = ''w1'', poolID = ''p1'', namespace = ''ns'',
       jobTypes = [''email'' \<mapsto> ex_jobType], middleware = [], hook = [],
       contextType = StructT ''main.Context'' \<rparr>"

definition ex_job :: Job where
  "ex_job =
     \<lparr> Name = ''email'', ID = ''a'', EnqueuedAt = 1700000000, Args = [], Unique = True,
       Fails = 0, LastErr = [], FailedAt = 0, ScheduledAt = 0, Success = False,
       rawJSON = ''email/a/0'', dequeuedFrom = redisKeyJobs ''ns'' ''email'',
       inProgQueue = redisKeyJobsInProgress ''ns'' ''p1'' ''email'' \<rparr>"

definition ex_env :: env where
  "ex_env =
     \<lparr> serialize = (\<lambda>job. Inr (Name job @ ''/'' @ ID job @ ''/'' @ LastErr job)),
       redisKeyUniqueJob = (\<lambda>ns n a. (ns @ '':unique:'' @ n, None)),
       newJob = (\<lambda>raw src inprog. Inr (ex_job\<lparr> rawJSON := raw, dequeuedFrom := src,
                                               inProgQueue := inprog \<rparr>)) \<rparr>"

text \<open>The store with the example job pending, and the one where the pool holds it in
  progress.\<close>

definition ex_pending :: world where
  "ex_pending =
     \<lparr> store = empty_redis\<lparr> lists := (\<lambda>k. [])(redisKeyJobs ''ns'' ''email'' := [''email/a/0'']) \<rparr>,
       trace = [] \<rparr>"

definition ex_in_progress :: world where
  "ex_in_progress =
     \<lparr> store = \<lparr> strings = [redisKeyJobsLock ''ns'' ''email'' \<mapsto> 1,
                             uniqueKey ''ns:unique:email'' \<mapsto> 1],
                 lists = (\<lambda>k. [])(redisKeyJobsInProgress ''ns'' ''p1'' ''email'' := [''email/a/0'']),
                 hashes = (\<lambda>k f. 0)(redisKeyJobsLockInfo ''ns'' ''email'' := (\<lambda>f. 0)(''p1'' := 1)),
                 zsets = (\<lambda>k. Map.empty) \<rparr>,
       trace = [] \<rparr>"

definition ex_inputs :: "outcome \<Rightarrow> inputs" where
  "ex_inputs out = \<lparr> outcome = out, nowFailed = 1700000100, nowRoute = 1700000100, rnd = 7 \<rparr>"

text \<open>The pool of the example, before any job is registered, and a handler of the
  generic shape \<open>func(*Job) error\<close>.\<close>

definition ex_pool :: WorkerPool where
  "ex_pool =
     \<lparr> workerPoolID = ''p1'', concurrency = 1, wpNamespace = ''ns'', wpPool = RedisPool ''redis'',
       wpContextType = StructT ''main.Context'', wpJobTypes = Map.empty, wpMiddleware = [],
       wpHook = [], started = False, workers = [ex_worker\<lparr> jobTypes := Map.empty \<rparr>] \<rparr>"

definition ex_handler :: gotype where
  "ex_handler = FuncT [JobPtrT] [errorT]"

section \<open>The lock counts the records in progress\<close>

lemma lrem_head_one: "lrem_head (Suc 0) v xs = remove1 v xs"
  by (induction xs) auto

lemma lrem_one: "lrem 1 v xs = remove1 v xs"
  by (simp add: lrem_def lrem_head_one)

lemma sum_list_change_one:
  fixes f g :: "'a \<Rightarrow> nat"
  assumes "distinct P" and "p \<in> set P" and "\<And>q. q \<noteq> p \<Longrightarrow> g q = f q"
  shows "sum_list (map g P) + f p = sum_list (map f P) + g p"
  using assms(1,2)
proof (induction P)
  case Nil
  then show ?case by simp
next
  case (Cons a P)
  show ?case
  proof (cases "a = p")
    case True
    with Cons.prems have "p \<notin> set P" by simp
    then have "\<forall>x\<in>set P. g x = f x"
      by (metis assms(3))
    then have eq: "map g P = map f P"
      by simp
    have "sum_list (map g P) = sum_list (map f P)"
      by (simp only: eq)
    with True show ?thesis by simp
  next
    case False
    with Cons.prems have "distinct P" "p \<in> set P" by auto
    from Cons.IH [OF this] False assms(3) [of a] show ?thesis by simp
  qed
qed

lemma sum_list_same:
  assumes "\<And>q. q \<in> set P \<Longrightarrow> g q = f q"
  shows "sum_list (map g P) = sum_list (map f P)"
  using assms by (metis map_cong)

text \<open>The three commands every completion starts its transaction with.\<close>

lemma release_store:
  "MULTI_EXEC [LREM q 1 raw, DECR lock, HINCRBY info pool (- 1)] s =
     s\<lparr> lists := (lists s)(q := remove1 raw (lists s q)),
        strings := (strings s)(lock \<mapsto> get_int s lock - 1),
        hashes := (hashes s)(info := (hashes s info)(pool := hashes s info pool - 1)) \<rparr>"
  by (simp add: MULTI_EXEC_def lrem_one get_int_def)

lemma release_zadd_store:
  "MULTI_EXEC [LREM q 1 raw, DECR lock, HINCRBY info pool (- 1), ZADD k score m] s =
     s\<lparr> lists := (lists s)(q := remove1 raw (lists s q)),
        strings := (strings s)(lock \<mapsto> get_int s lock - 1),
        hashes := (hashes s)(info := (hashes s info)(pool := hashes s info pool - 1)),
        zsets := (zsets s)(k := (zsets s k)(m \<mapsto> score)) \<rparr>"
  by (simp add: MULTI_EXEC_def lrem_one get_int_def)

lemma release_invariant:
  assumes inv: "lock_invariant P s" and d: "distinct P" and p: "pool \<in> set P"
    and r: "raw \<in> set (lists s (redisKeyJobsInProgress ns pool n))"
  shows "lock_invariant P (MULTI_EXEC
            [ LREM (redisKeyJobsInProgress ns pool n) 1 raw,
              DECR (redisKeyJobsLock ns n),
              HINCRBY (redisKeyJobsLockInfo ns n) pool (- 1) ] s)"
proof -
  let ?q = "redisKeyJobsInProgress ns pool n"
  let ?s' = "MULTI_EXEC [LREM ?q 1 raw, DECR (redisKeyJobsLock ns n),
               HINCRBY (redisKeyJobsLockInfo ns n) pool (- 1)] s"
  have len: "length (remove1 raw (lists s ?q)) + 1 = length (lists s ?q)"
    using r by (simp add: length_remove1) (metis length_pos_if_in_set Suc_pred)
  have L: "lists ?s' = (lists s)(?q := remove1 raw (lists s ?q))"
    by (simp add: release_store)
  have tot_same: "total_in_progress ?s' P ns' n' = total_in_progress s P ns' n'"
    if "ns' \<noteq> ns \<or> n' \<noteq> n" for ns' n'
    unfolding total_in_progress_def using that by (intro sum_list_same) (auto simp: L)
  have tot: "total_in_progress ?s' P ns n + 1 = total_in_progress s P ns n"
  proof -
    have "sum_list (map (\<lambda>p. length (lists ?s' (redisKeyJobsInProgress ns p n))) P)
            + length (lists s ?q)
          = sum_list (map (\<lambda>p. length (lists s (redisKeyJobsInProgress ns p n))) P)
            + length (lists ?s' ?q)"
      by (rule sum_list_change_one [OF d p]) (simp add: L)
    then show ?thesis
      using len by (simp add: total_in_progress_def L)
  qed
  have 1: "get_int ?s' (redisKeyJobsLock ns' n') = int (total_in_progress ?s' P ns' n')" for ns' n'
  proof (cases "ns' = ns \<and> n' = n")
    case True
    have "get_int ?s' (redisKeyJobsLock ns n) = get_int s (redisKeyJobsLock ns n) - 1"
      by (simp add: release_store get_int_def)
    with inv tot True show ?thesis
      by (simp add: lock_invariant_def)
  next
    case False
    then have "get_int ?s' (redisKeyJobsLock ns' n') = get_int s (redisKeyJobsLock ns' n')"
      by (auto simp add: release_store get_int_def)
    with inv tot_same [of ns' n'] False show ?thesis
      by (auto simp: lock_invariant_def)
  qed
  have 2: "hashes ?s' (redisKeyJobsLockInfo ns' n') p' =
           int (length (lists ?s' (redisKeyJobsInProgress ns' p' n')))" for ns' n' p'
    using inv len by (auto simp: lock_invariant_def release_store)
  have 3: "lists ?s' (redisKeyJobsInProgress ns' p' n') = []" if "p' \<notin> set P" for ns' n' p'
    using inv that p by (auto simp: lock_invariant_def L)
  from 1 2 3 show ?thesis
    unfolding lock_invariant_def by blast
qed

lemma zadd_invariant:
  "lock_invariant P s \<Longrightarrow> lock_invariant P (redis_do (ZADD k score m) s)"
  by (simp add: lock_invariant_def total_in_progress_def get_int_def)

lemma release_zadd_invariant:
  assumes inv: "lock_invariant P s" and d: "distinct P" and p: "pool \<in> set P"
    and r: "raw \<in> set (lists s (redisKeyJobsInProgress ns pool n))"
  shows "lock_invariant P (MULTI_EXEC
            [ LREM (redisKeyJobsInProgress ns pool n) 1 raw,
              DECR (redisKeyJobsLock ns n),
              HINCRBY (redisKeyJobsLockInfo ns n) pool (- 1),
              ZADD k score m ] s)"
proof -
  have "MULTI_EXEC
          [ LREM (redisKeyJobsInProgress ns pool n) 1 raw, DECR (redisKeyJobsLock ns n),
            HINCRBY (redisKeyJobsLockInfo ns n) pool (- 1), ZADD k score m ] s
        = redis_do (ZADD k score m) (MULTI_EXEC
          [ LREM (redisKeyJobsInProgress ns pool n) 1 raw, DECR (redisKeyJobsLock ns n),
            HINCRBY (redisKeyJobsLockInfo ns n) pool (- 1) ] s)"
    by (simp add: MULTI_EXEC_def)
  with zadd_invariant [OF release_invariant [OF inv d p r]] show ?thesis
    by (simp only:)
qed

text \<open>The fetch script takes a record into the in-progress list and counts it.\<close>

lemma acquire_invariant:
  assumes inv: "lock_invariant P s" and d: "distinct P" and p: "pool \<in> set P"
  shows "lock_invariant P (fold redis_do
            [ LPUSH (redisKeyJobsInProgress ns pool n) payload,
              INCR (redisKeyJobsLock ns n),
              HINCRBY (redisKeyJobsLockInfo ns n) pool 1 ]
            (s\<lparr> lists := (lists s)(redisKeyJobs ns n := ys) \<rparr>))"
proof -
  let ?q = "redisKeyJobsInProgress ns pool n"
  let ?s' = "fold redis_do [LPUSH ?q payload, INCR (redisKeyJobsLock ns n),
               HINCRBY (redisKeyJobsLockInfo ns n) pool 1]
               (s\<lparr> lists := (lists s)(redisKeyJobs ns n := ys) \<rparr>)"
  have L: "lists ?s' = (lists s)(redisKeyJobs ns n := ys, ?q := payload # lists s ?q)"
    by simp
  have S: "strings ?s' = (strings s)(redisKeyJobsLock ns n \<mapsto> get_int s (redisKeyJobsLock ns n) + 1)"
    by (simp add: get_int_def)
  have H: "hashes ?s' = (hashes s)(redisKeyJobsLockInfo ns n :=
             (hashes s (redisKeyJobsLockInfo ns n))(pool := hashes s (redisKeyJobsLockInfo ns n) pool + 1))"
    by simp
  have tot_same: "total_in_progress ?s' P ns' n' = total_in_progress s P ns' n'"
    if "ns' \<noteq> ns \<or> n' \<noteq> n" for ns' n'
    unfolding total_in_progress_def using that by (intro sum_list_same) (auto simp: L)
  have tot: "total_in_progress ?s' P ns n = total_in_progress s P ns n + 1"
  proof -
    have "sum_list (map (\<lambda>p. length (lists ?s' (redisKeyJobsInProgress ns p n))) P)
            + length (lists s ?q)
          = sum_list (map (\<lambda>p. length (lists s (redisKeyJobsInProgress ns p n))) P)
            + length (lists ?s' ?q)"
      by (rule sum_list_change_one [OF d p]) (simp add: L)
    then show ?thesis
      by (simp add: total_in_progress_def L)
  qed
  have 1: "get_int ?s' (redisKeyJobsLock ns' n') = int (total_in_progress ?s' P ns' n')" for ns' n'
  proof (cases "ns' = ns \<and> n' = n")
    case True
    have "get_int ?s' (redisKeyJobsLock ns n) = get_int s (redisKeyJobsLock ns n) + 1"
      by (simp add: S get_int_def)
    with inv tot True show ?thesis
      by (simp add: lock_invariant_def)
  next
    case False
    then have "get_int ?s' (redisKeyJobsLock ns' n') = get_int s (redisKeyJobsLock ns' n')"
      by (auto simp add: S get_int_def)
    with inv tot_same [of ns' n'] False show ?thesis
      by (auto simp: lock_invariant_def)
  qed
  have 2: "hashes ?s' (redisKeyJobsLockInfo ns' n') p' =
           int (length (lists ?s' (redisKeyJobsInProgress ns' p' n')))" for ns' n' p'
    using inv by (auto simp: lock_invariant_def H L)
  have 3: "lists ?s' (redisKeyJobsInProgress ns' p' n') = []" if "p' \<notin> set P" for ns' n' p'
    using inv that p by (auto simp: lock_invariant_def L)
  from 1 2 3 show ?thesis
    unfolding lock_invariant_def by blast
qed

lemma fetch_invariant:
  assumes d: "distinct P" and p: "poolID w \<in> set P"
  shows "lock_invariant P s \<Longrightarrow>
         lock_invariant P (snd (redisLuaFetchJob (map (sampler_add w) jts) (poolID w) s))"
proof (induction jts arbitrary: s)
  case Nil
  then show ?case by simp
next
  case (Cons jt jts)
  from acquire_invariant [OF Cons.prems d p]
  show ?case
    using Cons by (simp add: sampler_add_def Let_def split: option.splits)
qed

lemma perform_invariant:
  assumes d: "distinct P" and p: "poolID (op_worker o1) \<in> set P"
    and inv: "lock_invariant P (store x)" and ok: "successful o1 x"
  shows "lock_invariant P (store (perform e o1 x))"
proof (cases o1)
  case (OpFetch w names)
  with fetch_invariant [OF d, of w "store x"] p inv show ?thesis
    by (simp add: samples_def)
next
  case (OpRemove w job)
  with p ok have "poolID w \<in> set P"
    and q: "inProgQueue job = redisKeyJobsInProgress (namespace w) (poolID w) (Name job)"
    and "rawJSON job \<in> set (lists (store x) (redisKeyJobsInProgress (namespace w) (poolID w) (Name job)))"
    by (auto simp: holds_job_def)
  from release_invariant [OF inv d this(1,3)] OpRemove q show ?thesis
    by (simp add: removeJobFromInProgress_def)
next
  case (OpRetry w job runErr now r)
  with p ok have "poolID w \<in> set P"
    and q: "inProgQueue job = redisKeyJobsInProgress (namespace w) (poolID w) (Name job)"
    and "rawJSON job \<in> set (lists (store x) (redisKeyJobsInProgress (namespace w) (poolID w) (Name job)))"
    by (auto simp: holds_job_def)
  from release_zadd_invariant [OF inv d this(1,3)] OpRetry q inv show ?thesis
    by (simp add: addToRetry_def logError_def Let_def split: sum.splits)
next
  case (OpDead w job runErr now)
  with p ok have "poolID w \<in> set P"
    and q: "inProgQueue job = redisKeyJobsInProgress (namespace w) (poolID w) (Name job)"
    and "rawJSON job \<in> set (lists (store x) (redisKeyJobsInProgress (namespace w) (poolID w) (Name job)))"
    by (auto simp: holds_job_def)
  from release_zadd_invariant [OF inv d this(1,3)] OpDead q inv show ?thesis
    by (simp add: addToDead_def logError_def split: sum.splits)
qed

lemma run_invariant:
  assumes d: "distinct P"
  shows "\<forall>o1\<in>set ops. poolID (op_worker o1) \<in> set P \<Longrightarrow> lock_invariant P (store x) \<Longrightarrow>
         successful_run e ops x \<Longrightarrow> lock_invariant P (store (run e ops x))"
proof (induction ops arbitrary: x)
  case Nil
  then show ?case by simp
next
  case (Cons o1 ops)
  from Cons.prems have "lock_invariant P (store (perform e o1 x))"
    by (intro perform_invariant [OF d]) auto
  with Cons show ?case by simp
qed

lemma empty_invariant: "lock_invariant P empty_redis"
  by (simp add: lock_invariant_def empty_redis_def get_int_def total_in_progress_def)

lemma remove_effect:
  "lists (store (removeJobFromInProgress w job y)) (inProgQueue job)
     = remove1 (rawJSON job) (lists (store y) (inProgQueue job)) \<and>
   get_int (store (removeJobFromInProgress w job y)) (redisKeyJobsLock (namespace w) (Name job))
     = get_int (store y) (redisKeyJobsLock (namespace w) (Name job)) - 1 \<and>
   hashes (store (removeJobFromInProgress w job y)) (redisKeyJobsLockInfo (namespace w) (Name job)) (poolID w)
     = hashes (store y) (redisKeyJobsLockInfo (namespace w) (Name job)) (poolID w) - 1"
  by (simp add: removeJobFromInProgress_def release_store get_int_def)

lemma retry_effect:
  assumes "serialize e job = Inr raw"
  shows "lists (store (addToRetry e w job runErr now r y)) (inProgQueue job)
     = remove1 (rawJSON job) (lists (store y) (inProgQueue job)) \<and>
   get_int (store (addToRetry e w job runErr now r y)) (redisKeyJobsLock (namespace w) (Name job))
     = get_int (store y) (redisKeyJobsLock (namespace w) (Name job)) - 1 \<and>
   hashes (store (addToRetry e w job runErr now r y)) (redisKeyJobsLockInfo (namespace w) (Name job)) (poolID w)
     = hashes (store y) (redisKeyJobsLockInfo (namespace w) (Name job)) (poolID w) - 1"
  using assms by (simp add: addToRetry_def Let_def release_zadd_store get_int_def)

lemma dead_effect:
  assumes "serialize e job = Inr raw"
  shows "lists (store (addToDead e w job runErr now y)) (inProgQueue job)
     = remove1 (rawJSON job) (lists (store y) (inProgQueue job)) \<and>
   get_int (store (addToDead e w job runErr now y)) (redisKeyJobsLock (namespace w) (Name job))
     = get_int (store y) (redisKeyJobsLock (namespace w) (Name job)) - 1 \<and>
   hashes (store (addToDead e w job runErr now y)) (redisKeyJobsLockInfo (namespace w) (Name job)) (poolID w)
     = hashes (store y) (redisKeyJobsLockInfo (namespace w) (Name job)) (poolID w) - 1"
  using assms by (simp add: addToDead_def release_zadd_store get_int_def)

lemma serialize_error_effect:
  assumes "serialize e job = Inl err"
  shows "store (addToRetry e w job runErr now r y) = store y"
    and "store (addToDead e w job runErr now y) = store y"
  using assms by (simp_all add: addToRetry_def addToDead_def logError_def)

text \<open>
  Claim C1. Each of the three completions removes one occurrence of the job's record
  from its in-progress list and takes one off the lock of the job's name and off the
  pool's field of the lock info, all in the one \<open>MULTI\<close>/\<open>EXEC\<close> step:
  \<open>removeJobFromInProgress\<close> always, \<open>addToRetry\<close> and \<open>addToDead\<close> when the job
  serializes (when it does not, they leave the store as it is). Hence, from a store in
  which every lock equals the number of records in progress (the empty store is one),
  after any sequence of fetches and successful completions by workers of the pools
  \<open>pools\<close>, the lock of every name again equals the total number of records in the
  in-progress lists of all pools for that name, each field of the lock info equals the
  length of that pool's list, and no other pool has a record in progress.
\<close>

theorem lock_counts_in_progress:
  assumes "distinct pools"
    and "\<forall>o1\<in>set ops. poolID (op_worker o1) \<in> set pools"
    and "lock_invariant pools (store x)"
    and "successful_run e ops x"
  shows "(\<forall>o1\<in>{OpRemove w job, OpRetry w job runErr now r, OpDead w job runErr now}.
            o1 = OpRemove w job \<or> serialize e job = Inr raw \<longrightarrow>
            lists (store (perform e o1 y)) (inProgQueue job)
              = remove1 (rawJSON job) (lists (store y) (inProgQueue job)) \<and>
            get_int (store (perform e o1 y)) (redisKeyJobsLock (namespace w) (Name job))
              = get_int (store y) (redisKeyJobsLock (namespace w) (Name job)) - 1 \<and>
            hashes (store (perform e o1 y)) (redisKeyJobsLockInfo (namespace w) (Name job)) (poolID w)
              = hashes (store y) (redisKeyJobsLockInfo (namespace w) (Name job)) (poolID w) - 1)
         \<and> (serialize e job = Inl err \<longrightarrow>
              store (perform e (OpRetry w job runErr now r) y) = store y \<and>
              store (perform e (OpDead w job runErr now) y) = store y)
         \<and> get_int (store (run e ops x)) (redisKeyJobsLock ns n)
             = int (total_in_progress (store (run e ops x)) pools ns n)
         \<and> hashes (store (run e ops x)) (redisKeyJobsLockInfo ns n) p
             = int (length (lists (store (run e ops x)) (redisKeyJobsInProgress ns p n)))
         \<and> (p \<notin> set pools \<longrightarrow> lists (store (run e ops x)) (redisKeyJobsInProgress ns p n) = [])"
proof -
  from run_invariant [OF assms(1-4)]
  have "lock_invariant pools (store (run e ops x))" .
  then have inv:
    "get_int (store (run e ops x)) (redisKeyJobsLock ns n)
       = int (total_in_progress (store (run e ops x)) pools ns n)"
    "hashes (store (run e ops x)) (redisKeyJobsLockInfo ns n) p
       = int (length (lists (store (run e ops x)) (redisKeyJobsInProgress ns p n)))"
    "p \<notin> set pools \<longrightarrow> lists (store (run e ops x)) (redisKeyJobsInProgress ns p n) = []"
    by (simp_all add: lock_invariant_def)
  have eff: "\<forall>o1\<in>{OpRemove w job, OpRetry w job runErr now r, OpDead w job runErr now}.
            o1 = OpRemove w job \<or> serialize e job = Inr raw \<longrightarrow>
            lists (store (perform e o1 y)) (inProgQueue job)
              = remove1 (rawJSON job) (lists (store y) (inProgQueue job)) \<and>
            get_int (store (perform e o1 y)) (redisKeyJobsLock (namespace w) (Name job))
              = get_int (store y) (redisKeyJobsLock (namespace w) (Name job)) - 1 \<and>
            hashes (store (perform e o1 y)) (redisKeyJobsLockInfo (namespace w) (Name job)) (poolID w)
              = hashes (store y) (redisKeyJobsLockInfo (namespace w) (Name job)) (poolID w) - 1"
    using remove_effect [of w job y]
      retry_effect [where e = e and job = job and raw = raw and w = w and runErr = runErr
        and now = now and r = r and y = y]
      dead_effect [where e = e and job = job and raw = raw and w = w and runErr = runErr
        and now = now and y = y]
    by (simp only: ball_simps perform.simps op.distinct simp_thms) blast
  have err: "serialize e job = Inl err \<longrightarrow>
              store (perform e (OpRetry w job runErr now r) y) = store y \<and>
              store (perform e (OpDead w job runErr now) y) = store y"
  proof
    assume a: "serialize e job = Inl err"
    show "store (perform e (OpRetry w job runErr now r) y) = store y \<and>
          store (perform e (OpDead w job runErr now) y) = store y"
      using serialize_error_effect [OF a] by simp
  qed
  from eff err inv show ?thesis
    by (intro conjI)
qed

theorem lock_counts_in_progress_witness:
  "distinct [''p1''] \<and>
   poolID (op_worker (OpFetch ex_worker [''email''])) \<in> set [''p1''] \<and>
   poolID (op_worker (OpRemove ex_worker ex_job)) \<in> set [''p1''] \<and>
   lock_invariant [''p1''] (store ex_pending) \<and>
   successful_run ex_env [OpFetch ex_worker [''email''], OpRemove ex_worker ex_job] ex_pending \<and>
   serialize ex_env ex_job = Inr ''email/a/'' \<and>
   get_int (store (run ex_env [OpFetch ex_worker [''email''], OpRemove ex_worker ex_job] ex_pending))
     (redisKeyJobsLock ''ns'' ''email'') = 0 \<and>
   get_int (store (run ex_env [OpFetch ex_worker [''email'']] ex_pending))
     (redisKeyJobsLock ''ns'' ''email'') = 1"
proof -
  have d: "distinct [''p1'']" by simp
  have f: "store (perform ex_env (OpFetch ex_worker [''email'']) ex_pending) = store ex_in_progress
             \<lparr> strings := [redisKeyJobsLock ''ns'' ''email'' \<mapsto> 1] \<rparr>"
    by (simp add: samples_def List.map_filter_simps ex_worker_def ex_jobType_def sampler_add_def
          ex_pending_def ex_in_progress_def empty_redis_def get_int_def Let_def fun_eq_iff)
  have p1: "\<forall>o1\<in>set [OpFetch ex_worker [''email''], OpRemove ex_worker ex_job].
      poolID (op_worker o1) \<in> set [''p1'']"
    by (simp add: ex_worker_def)
  have p2: "\<forall>o1\<in>set [OpFetch ex_worker [''email'']]. poolID (op_worker o1) \<in> set [''p1'']"
    by (simp add: ex_worker_def)
  have i: "lock_invariant [''p1''] (store ex_pending)"
    by (simp add: lock_invariant_def ex_pending_def empty_redis_def get_int_def
          total_in_progress_def)
  have s1: "successful_run ex_env [OpFetch ex_worker [''email''], OpRemove ex_worker ex_job] ex_pending"
    using f by (simp add: holds_job_def ex_worker_def ex_job_def ex_in_progress_def)
  have s2: "successful_run ex_env [OpFetch ex_worker [''email'']] ex_pending"
    by simp
  have ser: "serialize ex_env ex_job = Inr ''email/a/''"
    by (simp add: ex_env_def ex_job_def)
  have r1: "lists (store (run ex_env [OpFetch ex_worker [''email''], OpRemove ex_worker ex_job] ex_pending))
              (redisKeyJobsInProgress ''ns'' ''p1'' ''email'') = []"
    using f by (simp add: removeJobFromInProgress_def release_store ex_job_def ex_in_progress_def)
  have r2: "lists (store (run ex_env [OpFetch ex_worker [''email'']] ex_pending))
              (redisKeyJobsInProgress ''ns'' ''p1'' ''email'') = [''email/a/0'']"
    using f by (simp add: ex_in_progress_def)
  have "get_int (store (run ex_env [OpFetch ex_worker [''email''], OpRemove ex_worker ex_job] ex_pending))
          (redisKeyJobsLock ''ns'' ''email'')
        = int (total_in_progress
            (store (run ex_env [OpFetch ex_worker [''email''], OpRemove ex_worker ex_job] ex_pending))
            [''p1''] ''ns'' ''email'')"
    using lock_counts_in_progress [OF d p1 i s1, where ns = "''ns''" and n = "''email''"
        and w = ex_worker and job = ex_job and raw = "''email/a/''" and err = "errorString ''boom''"
        and runErr = "errorString ''boom''" and now = 0 and r = 0 and y = ex_in_progress
        and p = "''p1''"]
    by (elim conjE)
  then have g1: "get_int (store (run ex_env [OpFetch ex_worker [''email''], OpRemove ex_worker ex_job]
      ex_pending)) (redisKeyJobsLock ''ns'' ''email'') = 0"
    by (simp only: total_in_progress_def list.map sum_list.Cons sum_list.Nil r1) simp
  have "get_int (store (run ex_env [OpFetch ex_worker [''email'']] ex_pending))
          (redisKeyJobsLock ''ns'' ''email'')
        = int (total_in_progress (store (run ex_env [OpFetch ex_worker [''email'']] ex_pending))
            [''p1''] ''ns'' ''email'')"
    using lock_counts_in_progress [OF d p2 i s2, where ns = "''ns''" and n = "''email''"
        and w = ex_worker and job = ex_job and raw = "''email/a/''" and err = "errorString ''boom''"
        and runErr = "errorString ''boom''" and now = 0 and r = 0 and y = ex_in_progress
        and p = "''p1''"]
    by (elim conjE)
  then have g2: "get_int (store (run ex_env [OpFetch ex_worker [''email'']] ex_pending))
      (redisKeyJobsLock ''ns'' ''email'') = 1"
    by (simp only: total_in_progress_def list.map sum_list.Cons sum_list.Nil r2) simp
  have q: "poolID (op_worker (OpFetch ex_worker [''email''])) \<in> set [''p1'']"
    "poolID (op_worker (OpRemove ex_worker ex_job)) \<in> set [''p1'']"
    by (simp_all add: ex_worker_def)
  from d q i s1 ser g1 g2 show ?thesis
    by (intro conjI)
qed


section \<open>Routing a failed job\<close>

lemma remove_store:
  "store (removeJobFromInProgress w job x) =
     (store x)\<lparr> lists := (lists (store x))(inProgQueue job :=
                   remove1 (rawJSON job) (lists (store x) (inProgQueue job))),
        strings := (strings (store x))(redisKeyJobsLock (namespace w) (Name job) \<mapsto>
                   get_int (store x) (redisKeyJobsLock (namespace w) (Name job)) - 1),
        hashes := (hashes (store x))(redisKeyJobsLockInfo (namespace w) (Name job) :=
                   (hashes (store x) (redisKeyJobsLockInfo (namespace w) (Name job)))
                     (poolID w := hashes (store x) (redisKeyJobsLockInfo (namespace w) (Name job)) (poolID w) - 1)) \<rparr>"
  by (simp add: removeJobFromInProgress_def release_store)

lemma retry_zsets:
  assumes "serialize e job = Inr raw"
  shows "zsets (store (addToRetry e w job runErr now r x)) =
     (zsets (store x))(redisKeyRetry (namespace w) :=
        (zsets (store x) (redisKeyRetry (namespace w)))
          (raw \<mapsto> sint (now +
             (case (case jobTypes w (Name job) of Some jt \<Rightarrow> Backoff jt | None \<Rightarrow> None) of
                None \<Rightarrow> defaultBackoffCalculator job r
              | Some f \<Rightarrow> f job))))"
  using assms by (simp add: addToRetry_def Let_def release_zadd_store)

lemma dead_zsets:
  assumes "serialize e job = Inr raw"
  shows "zsets (store (addToDead e w job runErr now x)) =
     (zsets (store x))(redisKeyDead (namespace w) :=
        (zsets (store x) (redisKeyDead (namespace w)))(raw \<mapsto> sint now))"
  using assms by (simp add: addToDead_def release_zadd_store)

lemma remove_zsets: "zsets (store (removeJobFromInProgress w job x)) = zsets (store x)"
  by (simp add: remove_store)









section \<open>The default backoff\<close>

lemma sint_add_nonneg:
  fixes a b :: int64
  assumes "0 \<le> sint a + sint b \<and> sint a + sint b \<le> B" and "B < 2 ^ 63"
  shows "sint (a + b) = sint a + sint b"
proof -
  from assms have "- (2 ^ 63) \<le> sint a + sint b" "sint a + sint b < 2 ^ 63"
    by linarith+
  then show ?thesis
    by (simp add: sint_word_ariths signed_take_bit_int_eq_self)
qed

lemma sint_mult_nonneg:
  fixes a b :: int64
  assumes "0 \<le> sint a * sint b \<and> sint a * sint b \<le> B" and "B < 2 ^ 63"
  shows "sint (a * b) = sint a * sint b"
proof -
  from assms have "- (2 ^ 63) \<le> sint a * sint b" "sint a * sint b < 2 ^ 63"
    by linarith+
  then show ?thesis
    by (simp add: sint_word_ariths signed_take_bit_int_eq_self)
qed

lemma product_bounds:
  fixes a b :: int
  assumes "0 \<le> a" "a \<le> A" "0 \<le> b" "b \<le> B"
  shows "0 \<le> a * b \<and> a * b \<le> A * B"
  using assms by (simp add: mult_mono)

text \<open>Without overflow, that is for at most 55108 fails, the result is the polynomial on
  the integers.\<close>

lemma defaultBackoff_value:
  assumes f0: "0 \<le> sint (Fails job)" and f1: "sint (Fails job) \<le> 55108"
    and r0: "0 \<le> sint r" and r1: "sint r < 30"
  shows "sint (defaultBackoffCalculator job r)
           = sint (Fails job) ^ 4 + 15 + sint r * (sint (Fails job) + 1)"
proof -
  let ?f = "Fails job"
  let ?n = "sint ?f"
  have b2: "0 \<le> ?n * ?n \<and> ?n * ?n \<le> 55108 * 55108"
    using product_bounds [OF f0 f1 f0 f1] .
  have s2: "sint (?f * ?f) = ?n * ?n"
    by (rule sint_mult_nonneg [OF b2]) simp
  have b3: "0 \<le> ?n * ?n * ?n \<and> ?n * ?n * ?n \<le> 55108 * 55108 * 55108"
    using product_bounds [OF conjunct1 [OF b2] conjunct2 [OF b2] f0 f1] .
  then have "0 \<le> sint (?f * ?f) * ?n \<and> sint (?f * ?f) * ?n \<le> 55108 * 55108 * 55108"
    by (simp only: s2)
  then have "sint (?f * ?f * ?f) = sint (?f * ?f) * ?n"
    by (rule sint_mult_nonneg) simp
  then have s3: "sint (?f * ?f * ?f) = ?n * ?n * ?n"
    by (simp only: s2)
  have b4: "0 \<le> ?n * ?n * ?n * ?n \<and> ?n * ?n * ?n * ?n \<le> 55108 * 55108 * 55108 * 55108"
    using product_bounds [OF conjunct1 [OF b3] conjunct2 [OF b3] f0 f1] .
  then have "0 \<le> sint (?f * ?f * ?f) * ?n \<and> sint (?f * ?f * ?f) * ?n \<le> 55108 * 55108 * 55108 * 55108"
    by (simp only: s3)
  then have "sint (?f * ?f * ?f * ?f) = sint (?f * ?f * ?f) * ?n"
    by (rule sint_mult_nonneg) simp
  then have s4: "sint (?f * ?f * ?f * ?f) = ?n * ?n * ?n * ?n"
    by (simp only: s3)
  have c15: "sint (15 :: int64) = 15"
    by simp
  have "0 \<le> sint (?f * ?f * ?f * ?f) + sint (15 :: int64)
        \<and> sint (?f * ?f * ?f * ?f) + sint (15 :: int64) \<le> 55108 * 55108 * 55108 * 55108 + 15"
    using b4 by (simp only: s4 c15) linarith
  then have "sint (?f * ?f * ?f * ?f + 15) = sint (?f * ?f * ?f * ?f) + sint (15 :: int64)"
    by (rule sint_add_nonneg) simp
  then have s15: "sint (?f * ?f * ?f * ?f + 15) = ?n * ?n * ?n * ?n + 15"
    by (simp only: s4 c15)
  have c1: "sint (1 :: int64) = 1"
    by simp
  have "0 \<le> ?n + sint (1 :: int64) \<and> ?n + sint (1 :: int64) \<le> 55109"
    using f0 f1 by (simp only: c1) linarith
  then have "sint (?f + 1) = ?n + sint (1 :: int64)"
    by (rule sint_add_nonneg) simp
  then have s1: "sint (?f + 1) = ?n + 1"
    by (simp only: c1)
  have r29: "sint r \<le> 29"
    using r1 by linarith
  have n1: "0 \<le> ?n + 1" "?n + 1 \<le> 55109"
    using f0 f1 by linarith+
  have br: "0 \<le> sint r * (?n + 1) \<and> sint r * (?n + 1) \<le> 29 * 55109"
    using product_bounds [OF r0 r29 n1] .
  then have "0 \<le> sint r * sint (?f + 1) \<and> sint r * sint (?f + 1) \<le> 29 * 55109"
    by (simp only: s1)
  then have "sint (r * (?f + 1)) = sint r * sint (?f + 1)"
    by (rule sint_mult_nonneg) simp
  then have sr: "sint (r * (?f + 1)) = sint r * (?n + 1)"
    by (simp only: s1)
  have "0 \<le> sint (?f * ?f * ?f * ?f + 15) + sint (r * (?f + 1))
        \<and> sint (?f * ?f * ?f * ?f + 15) + sint (r * (?f + 1))
            \<le> 55108 * 55108 * 55108 * 55108 + 15 + 29 * 55109"
    using b4 br by (simp only: s15 sr) linarith
  then have "sint (?f * ?f * ?f * ?f + 15 + r * (?f + 1))
               = sint (?f * ?f * ?f * ?f + 15) + sint (r * (?f + 1))"
    by (rule sint_add_nonneg) simp
  then have "sint (?f * ?f * ?f * ?f + 15 + r * (?f + 1)) = ?n * ?n * ?n * ?n + 15 + sint r * (?n + 1)"
    by (simp only: s15 sr)
  then show ?thesis
    by (simp add: defaultBackoffCalculator_def Let_def power4_eq_xxxx)
qed

lemma defaultBackoff_at_least_15:
  assumes "0 \<le> sint (Fails job)" and "sint (Fails job) \<le> 55108"
    and "0 \<le> sint r" and "sint r < 30"
  shows "15 \<le> sint (defaultBackoffCalculator job r)"
proof -
  have "0 \<le> sint (Fails job) ^ 4"
    by simp
  moreover have "0 \<le> sint r * (sint (Fails job) + 1)"
    using assms by simp
  ultimately show ?thesis
    using defaultBackoff_value [OF assms] by linarith
qed

lemma defaultBackoff_wraps:
  "sint (defaultBackoffCalculator (ex_job\<lparr> Fails := 55109 \<rparr>) 0) = - 9223363648512013440"
  by (simp add: defaultBackoffCalculator_def)

section \<open>The paths of processJob\<close>


lemma body_dropped:
  assumes "jobTypes w (Name job) = Some jt"
    and "0 < sint (StartingDeadline jt) \<and> 0 < sint (ScheduledAt job)
           \<and> sint (ScheduledAt job) < sint (StartingDeadline jt)"
  shows "processJob_body e w job i x = (job, removeJobFromInProgress w job x)"
  using assms by (simp add: processJob_body_def)


lemma body_cleared:
  assumes "jobTypes w (Name job) = Some jt"
    and "\<not> (0 < sint (StartingDeadline jt) \<and> 0 < sint (ScheduledAt job)
           \<and> sint (ScheduledAt job) < sint (StartingDeadline jt))"
    and "outcome i = Cleared"
  shows "processJob_body e w job i x =
     (job,
      removeJobFromInProgress w job
        (x\<lparr> trace := trace x @
            [ ObserveStarted (Name job) (ID job) (Args job),
              RunJob job (middleware w @ jtMiddleware jt),
              DoneClearing,
              ObserveDone (Name job) (ID job) None ] \<rparr>))"
  using assms by (auto simp add: processJob_body_def Let_def emit_def)

lemma body_returned_error:
  assumes "jobTypes w (Name job) = Some jt"
    and "\<not> (0 < sint (StartingDeadline jt) \<and> 0 < sint (ScheduledAt job)
           \<and> sint (ScheduledAt job) < sint (StartingDeadline jt))"
    and "outcome i = Returned (Some err)"
  shows "processJob_body e w job i x =
     (failed (job\<lparr> Success := False \<rparr>) err (nowFailed i),
      addToRetryOrDead e w jt (failed (job\<lparr> Success := False \<rparr>) err (nowFailed i))
        err (nowRoute i) (rnd i)
        (x\<lparr> trace := trace x @
            [ ObserveStarted (Name job) (ID job) (Args job),
              RunJob job (middleware w @ jtMiddleware jt),
              RunHook (job\<lparr> Success := False \<rparr>) (hook w @ jtHook jt),
              ObserveDone (Name job) (ID job) (Some err) ] \<rparr>))"
  using assms by (auto simp add: processJob_body_def Let_def emit_def)

lemma body_returned_nil:
  assumes "jobTypes w (Name job) = Some jt"
    and "\<not> (0 < sint (StartingDeadline jt) \<and> 0 < sint (ScheduledAt job)
           \<and> sint (ScheduledAt job) < sint (StartingDeadline jt))"
    and "outcome i = Returned None"
  shows "processJob_body e w job i x =
     (job\<lparr> Success := True \<rparr>,
      removeJobFromInProgress w (job\<lparr> Success := True \<rparr>)
        (x\<lparr> trace := trace x @
            [ ObserveStarted (Name job) (ID job) (Args job),
              RunJob job (middleware w @ jtMiddleware jt),
              RunHook (job\<lparr> Success := True \<rparr>) (hook w @ jtHook jt),
              ObserveDone (Name job) (ID job) None ] \<rparr>))"
  using assms by (auto simp add: processJob_body_def Let_def emit_def)

lemma body_stray:
  assumes "jobTypes w (Name job) = None"
  shows "processJob_body e w job i x =
     (failed job (errorString ''stray job: no handler'') (nowFailed i),
      addToDead e w (failed job (errorString ''stray job: no handler'') (nowFailed i))
        (errorString ''stray job: no handler'') (nowRoute i)
        (x\<lparr> trace := trace x @
            [ LogError ''process_job.stray'' (errorString ''stray job: no handler'') ] \<rparr>))"
  using assms by (simp add: processJob_body_def Let_def logError_def)

text \<open>The job that comes out of the body has the name, the arguments and the
  uniqueness flag of the job that went in.\<close>

lemma body_keeps_identity:
  "Name (fst (processJob_body e w job i x)) = Name job \<and>
   Args (fst (processJob_body e w job i x)) = Args job \<and>
   Unique (fst (processJob_body e w job i x)) = Unique job"
  by (simp add: processJob_body_def Let_def failed_def split_beta
        split: option.splits outcome.splits)

lemma processJob_split:
  "processJob e w job i x =
     (fst (processJob_body e w job i x),
      if Unique job
      then deleteUniqueJob e w (fst (processJob_body e w job i x)) (snd (processJob_body e w job i x))
      else snd (processJob_body e w job i x))"
  using body_keeps_identity [of e w job i x]
  by (simp add: processJob_def split_beta)

lemma deleteUnique_zsets:
  "k \<noteq> uniqueKey (fst (redisKeyUniqueJob e (namespace w) (Name job) (Args job))) \<Longrightarrow>
   zsets (store (deleteUniqueJob e w job x)) k = zsets (store x) k"
  by (simp add: deleteUniqueJob_def split_beta logError_def split: option.splits)

lemma deleteUnique_lists:
  "k \<noteq> uniqueKey (fst (redisKeyUniqueJob e (namespace w) (Name job) (Args job))) \<Longrightarrow>
   lists (store (deleteUniqueJob e w job x)) k = lists (store x) k"
  by (simp add: deleteUniqueJob_def split_beta logError_def split: option.splits)

lemma deleteUnique_strings:
  "strings (store (deleteUniqueJob e w job x)) =
     (strings (store x))(uniqueKey (fst (redisKeyUniqueJob e (namespace w) (Name job) (Args job))) := None)"
  by (simp add: deleteUniqueJob_def split_beta logError_def split: option.splits)

lemma deleteUnique_hashes:
  "k \<noteq> uniqueKey (fst (redisKeyUniqueJob e (namespace w) (Name job) (Args job))) \<Longrightarrow>
   hashes (store (deleteUniqueJob e w job x)) k = hashes (store x) k"
  by (simp add: deleteUniqueJob_def split_beta logError_def split: option.splits)

lemma deleteUnique_trace:
  "trace (deleteUniqueJob e w job x) =
     trace x @ (case snd (redisKeyUniqueJob e (namespace w) (Name job) (Args job)) of
                  Some er \<Rightarrow> [LogError ''worker.delete_unique_job.key'' er]
                | None \<Rightarrow> [])"
  by (simp add: deleteUniqueJob_def split_beta logError_def split: option.splits)

lemma remove_trace: "trace (removeJobFromInProgress w job x) = trace x"
  by (simp add: removeJobFromInProgress_def)

lemma dead_trace:
  "serialize e job = Inr raw \<Longrightarrow> trace (addToDead e w job runErr now x) = trace x"
  by (simp add: addToDead_def)

lemma retry_trace:
  "serialize e job = Inr raw \<Longrightarrow> trace (addToRetry e w job runErr now r x) = trace x"
  by (simp add: addToRetry_def Let_def)

text \<open>
  Claim C10. For a job whose \<open>Unique\<close> flag is set, the marker key that
  \<open>redisKeyUniqueJob\<close> gives for the job's name and arguments is absent from the store
  when \<open>processJob\<close> returns. The statement holds for every worker, job and input, hence
  on every path: the handler returning nil or an error, the timeout, the clear signal,
  the drop at the starting deadline and the job without a job type. The deletion is the
  deferred call, the last command of \<open>processJob\<close>.
\<close>

theorem unique_marker_deleted:
  assumes "Unique job"
  shows "strings (store (snd (processJob e w job i x)))
           (uniqueKey (fst (redisKeyUniqueJob e (namespace w) (Name job) (Args job)))) = None"
  using assms body_keeps_identity [of e w job i x]
  by (simp add: processJob_split deleteUnique_strings)

theorem unique_marker_deleted_witness:
  "Unique ex_job \<and>
   strings (store ex_in_progress) (uniqueKey ''ns:unique:email'') = Some 1 \<and>
   fst (redisKeyUniqueJob ex_env (namespace ex_worker) (Name ex_job) (Args ex_job)) = ''ns:unique:email'' \<and>
   strings (store (snd (processJob ex_env ex_worker ex_job (ex_inputs (Returned None)) ex_in_progress)))
     (uniqueKey ''ns:unique:email'') = None \<and>
   strings (store (snd (processJob ex_env ex_worker ex_job (ex_inputs TimedOut) ex_in_progress)))
     (uniqueKey ''ns:unique:email'') = None \<and>
   strings (store (snd (processJob ex_env ex_worker ex_job (ex_inputs Cleared) ex_in_progress)))
     (uniqueKey ''ns:unique:email'') = None"
proof -
  have u: "Unique ex_job"
    by (simp add: ex_job_def)
  have k: "fst (redisKeyUniqueJob ex_env (namespace ex_worker) (Name ex_job) (Args ex_job))
             = ''ns:unique:email''"
    by (simp add: ex_env_def ex_worker_def ex_job_def)
  have b: "strings (store ex_in_progress) (uniqueKey ''ns:unique:email'') = Some 1"
    by (simp add: ex_in_progress_def)
  from unique_marker_deleted [OF u, of ex_env ex_worker "ex_inputs (Returned None)" ex_in_progress]
    unique_marker_deleted [OF u, of ex_env ex_worker "ex_inputs TimedOut" ex_in_progress]
    unique_marker_deleted [OF u, of ex_env ex_worker "ex_inputs Cleared" ex_in_progress]
    u b k
  show ?thesis
    by (simp only: k)
qed

section \<open>The drop at the starting deadline\<close>

text \<open>
  Claim C7. For a job type with a positive \<open>StartingDeadline\<close> and a job with a positive
  \<open>ScheduledAt\<close> before it, \<open>processJob\<close> is \<open>removeJobFromInProgress\<close> (followed, as on
  every path, by the deferred deletion of the marker of a unique job) and nothing else:
  the job is unchanged, the trace gains no event from the body (no observer call, no
  handler task, no hook), and no retry or dead set changes.
\<close>

theorem starting_deadline_drop:
  assumes "jobTypes w (Name job) = Some jt"
    and "0 < sint (StartingDeadline jt)"
    and "0 < sint (ScheduledAt job)"
    and "sint (ScheduledAt job) < sint (StartingDeadline jt)"
  shows "processJob_body e w job i x = (job, removeJobFromInProgress w job x)
       \<and> processJob e w job i x =
           (job, if Unique job then deleteUniqueJob e w job (removeJobFromInProgress w job x)
                 else removeJobFromInProgress w job x)
       \<and> trace (snd (processJob_body e w job i x)) = trace x
       \<and> filter is_RunJob (trace (snd (processJob e w job i x))) = filter is_RunJob (trace x)
       \<and> filter is_RunHook (trace (snd (processJob e w job i x))) = filter is_RunHook (trace x)
       \<and> zsets (store (snd (processJob e w job i x))) (redisKeyRetry ns)
           = zsets (store x) (redisKeyRetry ns)
       \<and> zsets (store (snd (processJob e w job i x))) (redisKeyDead ns)
           = zsets (store x) (redisKeyDead ns)"
proof -
  have b: "processJob_body e w job i x = (job, removeJobFromInProgress w job x)"
    using assms by (intro body_dropped) auto
  then have p: "processJob e w job i x =
           (job, if Unique job then deleteUniqueJob e w job (removeJobFromInProgress w job x)
                 else removeJobFromInProgress w job x)"
    by (simp add: processJob_split)
  have t: "trace (snd (processJob_body e w job i x)) = trace x"
    by (simp add: b remove_trace)
  have f1: "filter is_RunJob (trace (snd (processJob e w job i x))) = filter is_RunJob (trace x)"
    by (simp add: p deleteUnique_trace remove_trace split: option.splits)
  have f2: "filter is_RunHook (trace (snd (processJob e w job i x))) = filter is_RunHook (trace x)"
    by (simp add: p deleteUnique_trace remove_trace split: option.splits)
  have z1: "zsets (store (snd (processJob e w job i x))) (redisKeyRetry ns)
           = zsets (store x) (redisKeyRetry ns)"
    by (simp add: p deleteUnique_zsets remove_zsets)
  have z2: "zsets (store (snd (processJob e w job i x))) (redisKeyDead ns)
           = zsets (store x) (redisKeyDead ns)"
    by (simp add: p deleteUnique_zsets remove_zsets)
  from b p t f1 f2 z1 z2 show ?thesis
    by (intro conjI)
qed

theorem starting_deadline_drop_witness:
  "jobTypes (ex_worker\<lparr> jobTypes := [''email'' \<mapsto> ex_jobType\<lparr> StartingDeadline := 1700000000 \<rparr>] \<rparr>)
       (Name (ex_job\<lparr> ScheduledAt := 1600000000 \<rparr>))
     = Some (ex_jobType\<lparr> StartingDeadline := 1700000000 \<rparr>) \<and>
   0 < sint (StartingDeadline (ex_jobType\<lparr> StartingDeadline := 1700000000 \<rparr>)) \<and>
   0 < sint (ScheduledAt (ex_job\<lparr> ScheduledAt := 1600000000 \<rparr>)) \<and>
   sint (ScheduledAt (ex_job\<lparr> ScheduledAt := 1600000000 \<rparr>))
     < sint (StartingDeadline (ex_jobType\<lparr> StartingDeadline := 1700000000 \<rparr>)) \<and>
   trace (snd (processJob ex_env
       (ex_worker\<lparr> jobTypes := [''email'' \<mapsto> ex_jobType\<lparr> StartingDeadline := 1700000000 \<rparr>] \<rparr>)
       (ex_job\<lparr> ScheduledAt := 1600000000 \<rparr>) (ex_inputs (Returned None)) ex_in_progress)) = [] \<and>
   lists (store (snd (processJob ex_env
       (ex_worker\<lparr> jobTypes := [''email'' \<mapsto> ex_jobType\<lparr> StartingDeadline := 1700000000 \<rparr>] \<rparr>)
       (ex_job\<lparr> ScheduledAt := 1600000000 \<rparr>) (ex_inputs (Returned None)) ex_in_progress)))
     (redisKeyJobsInProgress ''ns'' ''p1'' ''email'') = [] \<and>
   zsets (store (snd (processJob ex_env
       (ex_worker\<lparr> jobTypes := [''email'' \<mapsto> ex_jobType\<lparr> StartingDeadline := 1700000000 \<rparr>] \<rparr>)
       (ex_job\<lparr> ScheduledAt := 1600000000 \<rparr>) (ex_inputs (Returned None)) ex_in_progress)))
     (redisKeyRetry ''ns'') = Map.empty"
proof -
  let ?jt = "ex_jobType\<lparr> StartingDeadline := 1700000000 \<rparr>"
  let ?w = "ex_worker\<lparr> jobTypes := [''email'' \<mapsto> ?jt] \<rparr>"
  let ?job = "ex_job\<lparr> ScheduledAt := 1600000000 \<rparr>"
  have h1: "jobTypes ?w (Name ?job) = Some ?jt"
    by (simp add: ex_job_def)
  have h2: "0 < sint (StartingDeadline ?jt)"
    by simp
  have h3: "0 < sint (ScheduledAt ?job)"
    by simp
  have h4: "sint (ScheduledAt ?job) < sint (StartingDeadline ?jt)"
    by simp
  note T = starting_deadline_drop [OF h1 h2 h3 h4, of ex_env "ex_inputs (Returned None)"
      ex_in_progress "''ns''"]
  have u: "Unique ?job"
    by (simp add: ex_job_def)
  have p: "snd (processJob ex_env ?w ?job (ex_inputs (Returned None)) ex_in_progress)
             = deleteUniqueJob ex_env ?w ?job (removeJobFromInProgress ?w ?job ex_in_progress)"
    using T u by auto
  have t: "trace (snd (processJob ex_env ?w ?job (ex_inputs (Returned None)) ex_in_progress)) = []"
    by (simp only: p) (simp add: deleteUnique_trace remove_trace ex_env_def ex_in_progress_def)
  have l: "lists (store (snd (processJob ex_env ?w ?job (ex_inputs (Returned None)) ex_in_progress)))
             (redisKeyJobsInProgress ''ns'' ''p1'' ''email'') = []"
    by (simp only: p) (simp add: deleteUnique_lists remove_store ex_job_def ex_in_progress_def)
  have "zsets (store (snd (processJob ex_env ?w ?job (ex_inputs (Returned None)) ex_in_progress)))
             (redisKeyRetry ''ns'') = zsets (store ex_in_progress) (redisKeyRetry ''ns'')"
    using T by blast
  also have "\<dots> = Map.empty"
    by (simp add: ex_in_progress_def)
  finally have z: "zsets (store (snd (processJob ex_env ?w ?job (ex_inputs (Returned None)) ex_in_progress)))
             (redisKeyRetry ''ns'') = Map.empty" .
  from h1 h2 h3 h4 t l z show ?thesis
    by (intro conjI)
qed

section \<open>A job without a job type\<close>

text \<open>
  Claim C6. For a job whose name has no job type in the worker, \<open>processJob\<close> marks
  the job failed with the message "stray job: no handler" (one more fail, the message as
  last error) and passes it to \<open>addToDead\<close>: when the failed job serializes, it is in the
  dead set with the time as score. No retry set changes and no handler task is started,
  whatever the job's fails; there are no options to consult.
\<close>

theorem stray_job_goes_to_dead:
  assumes "jobTypes w (Name job) = None"
    and "serialize e (failed job (errorString ''stray job: no handler'') (nowFailed i)) = Inr raw"
  shows "fst (processJob e w job i x)
           = failed job (errorString ''stray job: no handler'') (nowFailed i)
       \<and> LastErr (fst (processJob e w job i x)) = ''stray job: no handler''
       \<and> Fails (fst (processJob e w job i x)) = Fails job + 1
       \<and> snd (processJob_body e w job i x)
           = addToDead e w (failed job (errorString ''stray job: no handler'') (nowFailed i))
               (errorString ''stray job: no handler'') (nowRoute i)
               (logError ''process_job.stray'' (errorString ''stray job: no handler'') x)
       \<and> zsets (store (snd (processJob e w job i x))) (redisKeyDead (namespace w)) raw
           = Some (sint (nowRoute i))
       \<and> zsets (store (snd (processJob e w job i x))) (redisKeyRetry ns)
           = zsets (store x) (redisKeyRetry ns)
       \<and> filter is_RunJob (trace (snd (processJob e w job i x))) = filter is_RunJob (trace x)"
proof -
  let ?err = "errorString ''stray job: no handler''"
  let ?job = "failed job ?err (nowFailed i)"
  let ?x1 = "x\<lparr> trace := trace x @ [LogError ''process_job.stray'' ?err] \<rparr>"
  have b: "processJob_body e w job i x = (?job, addToDead e w ?job ?err (nowRoute i) ?x1)"
    using assms(1) by (rule body_stray)
  have 1: "fst (processJob e w job i x) = ?job"
    by (simp add: processJob_split b)
  have 2: "LastErr (fst (processJob e w job i x)) = ''stray job: no handler''"
    by (simp add: 1 failed_def)
  have 3: "Fails (fst (processJob e w job i x)) = Fails job + 1"
    by (simp add: 1 failed_def)
  have 4: "snd (processJob_body e w job i x)
           = addToDead e w ?job ?err (nowRoute i) (logError ''process_job.stray'' ?err x)"
    by (simp add: b logError_def)
  have s: "store (snd (processJob e w job i x)) =
             (if Unique job
              then store (deleteUniqueJob e w ?job (addToDead e w ?job ?err (nowRoute i) ?x1))
              else store (addToDead e w ?job ?err (nowRoute i) ?x1))"
    by (simp add: processJob_split b)
  have 5: "zsets (store (snd (processJob e w job i x))) (redisKeyDead (namespace w)) raw
           = Some (sint (nowRoute i))"
    by (simp add: s deleteUnique_zsets dead_zsets [OF assms(2)])
  have 6: "zsets (store (snd (processJob e w job i x))) (redisKeyRetry ns)
           = zsets (store x) (redisKeyRetry ns)"
    by (simp add: s deleteUnique_zsets dead_zsets [OF assms(2)])
  have 7: "filter is_RunJob (trace (snd (processJob e w job i x))) = filter is_RunJob (trace x)"
    by (simp add: processJob_split b deleteUnique_trace dead_trace [OF assms(2)]
          split: option.splits)
  from 1 2 3 4 5 6 7 show ?thesis
    by (intro conjI)
qed

theorem stray_job_goes_to_dead_witness:
  "jobTypes (ex_worker\<lparr> jobTypes := Map.empty \<rparr>) (Name ex_job) = None \<and>
   serialize ex_env (failed ex_job (errorString ''stray job: no handler'')
       (nowFailed (ex_inputs (Returned None)))) = Inr ''email/a/stray job: no handler'' \<and>
   LastErr (fst (processJob ex_env (ex_worker\<lparr> jobTypes := Map.empty \<rparr>) ex_job
       (ex_inputs (Returned None)) ex_in_progress)) = ''stray job: no handler'' \<and>
   zsets (store (snd (processJob ex_env (ex_worker\<lparr> jobTypes := Map.empty \<rparr>) ex_job
       (ex_inputs (Returned None)) ex_in_progress)))
     (redisKeyDead ''ns'') ''email/a/stray job: no handler'' = Some 1700000100"
proof -
  let ?w = "ex_worker\<lparr> jobTypes := Map.empty \<rparr>"
  have h1: "jobTypes ?w (Name ex_job) = None"
    by simp
  have h2: "serialize ex_env (failed ex_job (errorString ''stray job: no handler'')
       (nowFailed (ex_inputs (Returned None)))) = Inr ''email/a/stray job: no handler''"
    by (simp add: ex_env_def failed_def ex_job_def)
  have n: "namespace ?w = ''ns''" "sint (nowRoute (ex_inputs (Returned None))) = 1700000100"
    by (simp_all add: ex_worker_def ex_inputs_def)
  note T = stray_job_goes_to_dead [OF h1 h2, of ex_in_progress "''ns''"]
  have a: "LastErr (fst (processJob ex_env ?w ex_job (ex_inputs (Returned None)) ex_in_progress))
             = ''stray job: no handler''"
    using T by (elim conjE)
  have b: "zsets (store (snd (processJob ex_env ?w ex_job (ex_inputs (Returned None)) ex_in_progress)))
             (redisKeyDead (namespace ?w)) ''email/a/stray job: no handler''
           = Some (sint (nowRoute (ex_inputs (Returned None))))"
    using T by (elim conjE)
  from h1 h2 a b [unfolded n] show ?thesis
    by (intro conjI)
qed

section \<open>The clear signal\<close>

text \<open>
  Claim C3 says that after a clear signal during execution the record stays in the
  in-progress list. It does not: after the \<open>select\<close> the code goes on with a nil
  \<open>runErr\<close>, so the job is removed as after a success. Here the example pool holds the
  example job in progress with lock 1; after \<open>processJob\<close> with a clear signal the list
  is empty and the lock is 0.
\<close>

theorem clear_signal_counterexample:
  "jobTypes ex_worker (Name ex_job) = Some ex_jobType \<and>
   outcome (ex_inputs Cleared) = Cleared \<and>
   lists (store ex_in_progress) (inProgQueue ex_job) = [rawJSON ex_job] \<and>
   get_int (store ex_in_progress) (redisKeyJobsLock ''ns'' ''email'') = 1 \<and>
   rawJSON ex_job \<notin> set (lists (store (snd (processJob ex_env ex_worker ex_job
       (ex_inputs Cleared) ex_in_progress))) (inProgQueue ex_job)) \<and>
   get_int (store (snd (processJob ex_env ex_worker ex_job (ex_inputs Cleared) ex_in_progress)))
     (redisKeyJobsLock ''ns'' ''email'') = 0"
proof -
  have jt: "jobTypes ex_worker (Name ex_job) = Some ex_jobType"
    by (simp add: ex_worker_def ex_job_def)
  have nd: "\<not> (0 < sint (StartingDeadline ex_jobType) \<and> 0 < sint (ScheduledAt ex_job)
           \<and> sint (ScheduledAt ex_job) < sint (StartingDeadline ex_jobType))"
    by (simp add: ex_jobType_def)
  have c: "outcome (ex_inputs Cleared) = Cleared"
    by (simp add: ex_inputs_def)
  have u: "Unique ex_job"
    by (simp add: ex_job_def)
  have s: "store (snd (processJob ex_env ex_worker ex_job (ex_inputs Cleared) ex_in_progress))
         = redis_do (DEL (uniqueKey ''ns:unique:email''))
             (store (removeJobFromInProgress ex_worker ex_job ex_in_progress))"
    using u
    by (simp add: processJob_split body_cleared [OF jt nd c] deleteUniqueJob_def
          removeJobFromInProgress_def)
       (simp add: ex_env_def ex_worker_def ex_job_def)
  have l0: "lists (store ex_in_progress) (inProgQueue ex_job) = [rawJSON ex_job]"
    by (simp add: ex_in_progress_def ex_job_def)
  have g0: "get_int (store ex_in_progress) (redisKeyJobsLock ''ns'' ''email'') = 1"
    by (simp add: ex_in_progress_def get_int_def)
  have l1: "rawJSON ex_job \<notin> set (lists (store (snd (processJob ex_env ex_worker ex_job
       (ex_inputs Cleared) ex_in_progress))) (inProgQueue ex_job))"
    by (simp only: s) (simp add: remove_store ex_job_def ex_in_progress_def)
  have g1: "get_int (store (snd (processJob ex_env ex_worker ex_job (ex_inputs Cleared) ex_in_progress)))
     (redisKeyJobsLock ''ns'' ''email'') = 0"
    by (simp only: s) (simp add: remove_store get_int_def ex_worker_def ex_job_def ex_in_progress_def)
  from jt c l0 g0 l1 g1 show ?thesis
    by (intro conjI)
qed

text \<open>
  Claim C3, amended. For a job with a job type that is not dropped at the starting
  deadline, when the clear signal arrives during the run: the worker acknowledges the
  clear and stops waiting, so that the job's outcome is discarded (the job is left as it
  was, no hook runs, nothing is recorded as a failure, and no retry or dead set changes);
  it then calls \<open>removeJobFromInProgress\<close>, as after a success: one occurrence of the
  record leaves the in-progress list and the lock and the pool's field of the lock info
  go down by one.
\<close>

theorem clear_signal_removes_job:
  assumes "jobTypes w (Name job) = Some jt"
    and "\<not> (0 < sint (StartingDeadline jt) \<and> 0 < sint (ScheduledAt job)
           \<and> sint (ScheduledAt job) < sint (StartingDeadline jt))"
    and "outcome i = Cleared"
  shows "fst (processJob e w job i x) = job
       \<and> trace (snd (processJob_body e w job i x))
           = trace x @ [ ObserveStarted (Name job) (ID job) (Args job),
                         RunJob job (middleware w @ jtMiddleware jt),
                         DoneClearing,
                         ObserveDone (Name job) (ID job) None ]
       \<and> store (snd (processJob_body e w job i x)) = store (removeJobFromInProgress w job x)
       \<and> lists (store (snd (processJob_body e w job i x))) (inProgQueue job)
           = remove1 (rawJSON job) (lists (store x) (inProgQueue job))
       \<and> get_int (store (snd (processJob_body e w job i x))) (redisKeyJobsLock (namespace w) (Name job))
           = get_int (store x) (redisKeyJobsLock (namespace w) (Name job)) - 1
       \<and> hashes (store (snd (processJob_body e w job i x)))
             (redisKeyJobsLockInfo (namespace w) (Name job)) (poolID w)
           = hashes (store x) (redisKeyJobsLockInfo (namespace w) (Name job)) (poolID w) - 1
       \<and> zsets (store (snd (processJob e w job i x))) (redisKeyRetry ns)
           = zsets (store x) (redisKeyRetry ns)
       \<and> zsets (store (snd (processJob e w job i x))) (redisKeyDead ns)
           = zsets (store x) (redisKeyDead ns)"
proof -
  let ?x1 = "x\<lparr> trace := trace x @
            [ ObserveStarted (Name job) (ID job) (Args job),
              RunJob job (middleware w @ jtMiddleware jt),
              DoneClearing,
              ObserveDone (Name job) (ID job) None ] \<rparr>"
  have b: "processJob_body e w job i x = (job, removeJobFromInProgress w job ?x1)"
    using assms by (rule body_cleared)
  have st: "store (removeJobFromInProgress w job ?x1) = store (removeJobFromInProgress w job x)"
    by (simp add: removeJobFromInProgress_def)
  have 1: "fst (processJob e w job i x) = job"
    by (simp add: processJob_split b)
  have 2: "trace (snd (processJob_body e w job i x)) = trace ?x1"
    by (simp add: b remove_trace)
  have 3: "store (snd (processJob_body e w job i x)) = store (removeJobFromInProgress w job x)"
    by (simp add: b st)
  have 4: "lists (store (snd (processJob_body e w job i x))) (inProgQueue job)
           = remove1 (rawJSON job) (lists (store x) (inProgQueue job))"
    using remove_effect [of w job x] by (simp add: 3)
  have 5: "get_int (store (snd (processJob_body e w job i x))) (redisKeyJobsLock (namespace w) (Name job))
           = get_int (store x) (redisKeyJobsLock (namespace w) (Name job)) - 1"
    using remove_effect [of w job x] by (simp add: 3)
  have 6: "hashes (store (snd (processJob_body e w job i x)))
             (redisKeyJobsLockInfo (namespace w) (Name job)) (poolID w)
           = hashes (store x) (redisKeyJobsLockInfo (namespace w) (Name job)) (poolID w) - 1"
    using remove_effect [of w job x] by (simp add: 3)
  have s: "store (snd (processJob e w job i x)) =
             (if Unique job
              then store (deleteUniqueJob e w job (removeJobFromInProgress w job ?x1))
              else store (removeJobFromInProgress w job ?x1))"
    by (simp add: processJob_split b)
  have 7: "zsets (store (snd (processJob e w job i x))) (redisKeyRetry ns)
           = zsets (store x) (redisKeyRetry ns)"
    by (simp add: s deleteUnique_zsets remove_zsets)
  have 8: "zsets (store (snd (processJob e w job i x))) (redisKeyDead ns)
           = zsets (store x) (redisKeyDead ns)"
    by (simp add: s deleteUnique_zsets remove_zsets)
  from 1 2 3 4 5 6 7 8 show ?thesis
    by simp
qed

theorem clear_signal_removes_job_witness:
  "jobTypes ex_worker (Name ex_job) = Some ex_jobType \<and>
   outcome (ex_inputs Cleared) = Cleared \<and>
   fst (processJob ex_env ex_worker ex_job (ex_inputs Cleared) ex_in_progress) = ex_job \<and>
   lists (store (snd (processJob_body ex_env ex_worker ex_job (ex_inputs Cleared) ex_in_progress)))
     (inProgQueue ex_job) = [] \<and>
   zsets (store (snd (processJob ex_env ex_worker ex_job (ex_inputs Cleared) ex_in_progress)))
     (redisKeyRetry ''ns'') = Map.empty"
proof -
  have jt: "jobTypes ex_worker (Name ex_job) = Some ex_jobType"
    by (simp add: ex_worker_def ex_job_def)
  have nd: "\<not> (0 < sint (StartingDeadline ex_jobType) \<and> 0 < sint (ScheduledAt ex_job)
           \<and> sint (ScheduledAt ex_job) < sint (StartingDeadline ex_jobType))"
    by (simp add: ex_jobType_def)
  have c: "outcome (ex_inputs Cleared) = Cleared"
    by (simp add: ex_inputs_def)
  note T = clear_signal_removes_job [OF jt nd c, of ex_env ex_in_progress "''ns''"]
  have a: "fst (processJob ex_env ex_worker ex_job (ex_inputs Cleared) ex_in_progress) = ex_job"
    using T by (elim conjE)
  have "lists (store (snd (processJob_body ex_env ex_worker ex_job (ex_inputs Cleared) ex_in_progress)))
          (inProgQueue ex_job)
        = remove1 (rawJSON ex_job) (lists (store ex_in_progress) (inProgQueue ex_job))"
    using T by (elim conjE)
  also have "\<dots> = []"
    by (simp add: ex_job_def ex_in_progress_def)
  finally have b: "lists (store (snd (processJob_body ex_env ex_worker ex_job (ex_inputs Cleared)
      ex_in_progress))) (inProgQueue ex_job) = []" .
  have "zsets (store (snd (processJob ex_env ex_worker ex_job (ex_inputs Cleared) ex_in_progress)))
          (redisKeyRetry ''ns'') = zsets (store ex_in_progress) (redisKeyRetry ''ns'')"
    using T by (elim conjE)
  also have "\<dots> = Map.empty"
    by (simp add: ex_in_progress_def)
  finally have z: "zsets (store (snd (processJob ex_env ex_worker ex_job (ex_inputs Cleared)
      ex_in_progress))) (redisKeyRetry ''ns'') = Map.empty" .
  from jt c a b z show ?thesis
    by (intro conjI)
qed

section \<open>The timeout\<close>






section \<open>The score of a retry under the default backoff\<close>

text \<open>
  Claim C5 says that for every job with at least 0 fails the default backoff is
  \<open>fails\<^sup>4 + 15 + r * (fails + 1)\<close> and so at least 15, and that the retry score is at
  least the time plus 15. \<open>Fails\<close> is an \<open>int64\<close> and the products wrap: with 55109
  fails (and \<open>r = 0\<close>) the result is negative, and so is the score of the retry.
\<close>

theorem default_backoff_counterexample:
  "0 \<le> sint (Fails (ex_job\<lparr> Fails := 55109 \<rparr>)) \<and>
   sint (defaultBackoffCalculator (ex_job\<lparr> Fails := 55109 \<rparr>) 0) = - 9223363648512013440 \<and>
   sint (defaultBackoffCalculator (ex_job\<lparr> Fails := 55109 \<rparr>) 0) < 15 \<and>
   zsets (store (addToRetry ex_env ex_worker (ex_job\<lparr> Fails := 55109 \<rparr>) (errorString ''boom'')
       1700000100 0 ex_in_progress)) (redisKeyRetry ''ns'') ''email/a/''
     = Some (- 9223363646812013340) \<and>
   (- 9223363646812013340 :: int) < 1700000100 + 15"
proof -
  have v: "sint (defaultBackoffCalculator (ex_job\<lparr> Fails := 55109 \<rparr>) 0) = - 9223363648512013440"
    by (simp add: defaultBackoffCalculator_def)
  have ser: "serialize ex_env (ex_job\<lparr> Fails := 55109 \<rparr>) = Inr ''email/a/''"
    by (simp add: ex_env_def ex_job_def)
  have z: "zsets (store (addToRetry ex_env ex_worker (ex_job\<lparr> Fails := 55109 \<rparr>) (errorString ''boom'')
       1700000100 0 ex_in_progress)) (redisKeyRetry ''ns'') ''email/a/''
     = Some (- 9223363646812013340)"
    by (simp add: retry_zsets [OF ser])
       (simp add: ex_worker_def ex_job_def ex_jobType_def defaultBackoffCalculator_def)
  from v z show ?thesis
    by simp
qed

text \<open>
  Claim C5, amended. For every job with between 0 and 55108 fails and every \<open>r\<close> in
  \<open>[0, 30)\<close>, the default backoff is \<open>fails\<^sup>4 + 15 + r * (fails + 1)\<close> and so at least
  15. Then \<open>addToRetry\<close>, when the job's type sets no backoff of its own, the job
  serializes and the time plus the backoff is below \<open>2\<^sup>6\<^sup>3\<close>, puts the serialized job
  into the retry set with the time plus the backoff as score, which is at least the time
  plus 15.
\<close>

theorem default_backoff_retry_score:
  assumes "0 \<le> sint (Fails job)" and "sint (Fails job) \<le> 55108"
    and "0 \<le> sint r" and "sint r < 30"
  shows "sint (defaultBackoffCalculator job r)
           = sint (Fails job) ^ 4 + 15 + sint r * (sint (Fails job) + 1)
       \<and> 15 \<le> sint (defaultBackoffCalculator job r)
       \<and> ((case jobTypes w (Name job) of Some jt \<Rightarrow> Backoff jt | None \<Rightarrow> None) = None
            \<and> serialize e job = Inr raw
            \<and> 0 \<le> sint now
            \<and> sint now + sint (defaultBackoffCalculator job r) < 2 ^ 63 \<longrightarrow>
            zsets (store (addToRetry e w job runErr now r x)) (redisKeyRetry (namespace w)) raw
              = Some (sint now + sint (defaultBackoffCalculator job r))
            \<and> sint now + 15 \<le> sint now + sint (defaultBackoffCalculator job r))"
proof -
  have 1: "sint (defaultBackoffCalculator job r)
           = sint (Fails job) ^ 4 + 15 + sint r * (sint (Fails job) + 1)"
    using assms by (rule defaultBackoff_value)
  have 2: "15 \<le> sint (defaultBackoffCalculator job r)"
    using assms by (rule defaultBackoff_at_least_15)
  have 3: "zsets (store (addToRetry e w job runErr now r x)) (redisKeyRetry (namespace w)) raw
              = Some (sint now + sint (defaultBackoffCalculator job r))
            \<and> sint now + 15 \<le> sint now + sint (defaultBackoffCalculator job r)"
    if nb: "(case jobTypes w (Name job) of Some jt \<Rightarrow> Backoff jt | None \<Rightarrow> None) = None"
      and ser: "serialize e job = Inr raw"
      and n0: "0 \<le> sint now"
      and n1: "sint now + sint (defaultBackoffCalculator job r) < 2 ^ 63"
  proof -
    have "0 \<le> sint now + sint (defaultBackoffCalculator job r)
          \<and> sint now + sint (defaultBackoffCalculator job r)
              \<le> sint now + sint (defaultBackoffCalculator job r)"
      using n0 2 by linarith
    then have "sint (now + defaultBackoffCalculator job r)
                 = sint now + sint (defaultBackoffCalculator job r)"
      using n1 by (rule sint_add_nonneg)
    then show ?thesis
      using 2 by (simp add: retry_zsets [OF ser] nb)
  qed
  from 1 2 3 show ?thesis
    by blast
qed

theorem default_backoff_retry_score_witness:
  "0 \<le> sint (Fails (ex_job\<lparr> Fails := 2 \<rparr>)) \<and> sint (Fails (ex_job\<lparr> Fails := 2 \<rparr>)) \<le> 55108 \<and>
   0 \<le> sint (7 :: int64) \<and> sint (7 :: int64) < 30 \<and>
   sint (defaultBackoffCalculator (ex_job\<lparr> Fails := 2 \<rparr>) 7) = 52 \<and>
   serialize ex_env (ex_job\<lparr> Fails := 2 \<rparr>) = Inr ''email/a/'' \<and>
   zsets (store (addToRetry ex_env ex_worker (ex_job\<lparr> Fails := 2 \<rparr>) (errorString ''boom'')
       1700000100 7 ex_in_progress)) (redisKeyRetry ''ns'') ''email/a/'' = Some 1700000152"
proof -
  let ?job = "ex_job\<lparr> Fails := 2 \<rparr>"
  have h: "0 \<le> sint (Fails ?job)" "sint (Fails ?job) \<le> 55108" "0 \<le> sint (7 :: int64)"
    "sint (7 :: int64) < 30"
    by simp_all
  note T = default_backoff_retry_score [OF h, of ex_worker ex_env "''email/a/''" 1700000100
      "errorString ''boom''" ex_in_progress]
  have v: "sint (defaultBackoffCalculator ?job 7) = 52"
    using T by simp
  have nb: "(case jobTypes ex_worker (Name ?job) of Some jt \<Rightarrow> Backoff jt | None \<Rightarrow> None) = None"
    by (simp add: ex_worker_def ex_job_def ex_jobType_def)
  have ser: "serialize ex_env ?job = Inr ''email/a/''"
    by (simp add: ex_env_def ex_job_def)
  have n: "0 \<le> sint (1700000100 :: int64)"
    "sint (1700000100 :: int64) + sint (defaultBackoffCalculator ?job 7) < 2 ^ 63"
    by (simp_all add: v)
  have "zsets (store (addToRetry ex_env ex_worker ?job (errorString ''boom'')
       1700000100 7 ex_in_progress)) (redisKeyRetry (namespace ex_worker)) ''email/a/''
     = Some (sint (1700000100 :: int64) + sint (defaultBackoffCalculator ?job 7))"
    using T nb ser n by blast
  then have z: "zsets (store (addToRetry ex_env ex_worker ?job (errorString ''boom'')
       1700000100 7 ex_in_progress)) (redisKeyRetry ''ns'') ''email/a/'' = Some 1700000152"
    by (simp add: v ex_worker_def)
  from h v ser z show ?thesis
    by (intro conjI)
qed

section \<open>The worker loop\<close>

lemma sint_succ_64:
  fixes c :: int64
  assumes "0 \<le> sint c" and "sint c < 2 ^ 63 - 1"
  shows "sint (c + 1) = sint c + 1"
proof -
  have "0 \<le> sint c + sint (1 :: int64) \<and> sint c + sint (1 :: int64) \<le> 2 ^ 63 - 1"
    using assms by simp
  then have "sint (c + 1) = sint c + sint (1 :: int64)"
    by (rule sint_add_nonneg) simp
  then show ?thesis
    by simp
qed

text \<open>The three results of a fetch at a tick of the timer.\<close>

lemma step_fetch_error:
  assumes "fetchJob e w names tr x = (Inl err, x1)"
  shows "loop_step e w (timerC names tr i) st x
           = Running (st\<lparr> timer := 10 * Millisecond \<rparr>) (logError ''worker.fetch'' err x1)"
  using assms by (simp add: loop_step_def)

lemma step_fetch_job:
  assumes "fetchJob e w names tr x = (Inr (Some job), x1)"
  shows "loop_step e w (timerC names tr i) st x
           = Running (st\<lparr> consequtiveNoJobs := 0, timer := 0 \<rparr>) (snd (processJob e w job i x1))"
  using assms by (simp add: loop_step_def)

lemma step_fetch_nil:
  assumes f: "fetchJob e w names tr x = (Inr None, x1)"
    and c0: "0 \<le> sint (consequtiveNoJobs st)" and c1: "sint (consequtiveNoJobs st) < 2 ^ 63 - 1"
  shows "loop_step e w (timerC names tr i) st x
           = Running
               ((if drained st then st\<lparr> drained := False \<rparr> else st)
                  \<lparr> consequtiveNoJobs := consequtiveNoJobs st + 1,
                    timer := (sleepBackoffsInMilliseconds
                                ! min (nat (sint (consequtiveNoJobs st + 1))) 4) * Millisecond \<rparr>)
               (if drained st then emit DoneDraining x1 else x1)"
proof -
  let ?n = "consequtiveNoJobs st + 1"
  have s: "sint ?n = sint (consequtiveNoJobs st) + 1"
    using c0 c1 by (rule sint_succ_64)
  have len: "(of_nat (length sleepBackoffsInMilliseconds) :: int64) = 5"
    by (simp add: sleepBackoffsInMilliseconds_def)
  show ?thesis
  proof (cases "5 \<le> sint ?n")
    case True
    then have "min (nat (sint ?n)) 4 = 4"
      by simp
    with True f show ?thesis
      by (simp add: loop_step_def Let_def len) (simp add: sleepBackoffsInMilliseconds_def)
  next
    case False
    then have "min (nat (sint ?n)) 4 = nat (sint ?n)" and "0 \<le> sint ?n" and "sint ?n < 5"
      using s c0 by simp_all
    with False f show ?thesis
      by (simp add: loop_step_def Let_def len) (simp add: sleepBackoffsInMilliseconds_def)
  qed
qed

text \<open>The idle counter starts at 0 and a step adds at most one to it, so that after a
  run of fewer than \<open>2\<^sup>6\<^sup>3 - 1\<close> signals it has not wrapped.\<close>

lemma step_counter:
  assumes "loop_step e w sig st x = Running st' x'"
    and "0 \<le> sint (consequtiveNoJobs st)" and "sint (consequtiveNoJobs st) < 2 ^ 63 - 1"
  shows "0 \<le> sint (consequtiveNoJobs st') \<and>
         sint (consequtiveNoJobs st') \<le> sint (consequtiveNoJobs st) + 1"
proof (cases sig)
  case stopChan
  with assms show ?thesis by (simp add: loop_step_def)
next
  case drainChan
  with assms show ?thesis by (auto simp add: loop_step_def)
next
  case (timerC names tr i)
  obtain res x1 where f: "fetchJob e w names tr x = (res, x1)"
    by (cases "fetchJob e w names tr x")
  show ?thesis
  proof (cases res)
    case (Inl err)
    with assms timerC f step_fetch_error [of e w names tr x err x1 i st] show ?thesis
      by auto
  next
    case (Inr jo)
    show ?thesis
    proof (cases jo)
      case None
      with Inr f have "fetchJob e w names tr x = (Inr None, x1)" by simp
      from step_fetch_nil [OF this assms(2,3), of i] assms(1) timerC
      have "consequtiveNoJobs st' = consequtiveNoJobs st + 1"
        by auto
      with sint_succ_64 [OF assms(2,3)] assms(2) show ?thesis
        by simp
    next
      case (Some job)
      with Inr f have "fetchJob e w names tr x = (Inr (Some job), x1)" by simp
      from step_fetch_job [OF this, of i st] assms(1,2) timerC show ?thesis
        by auto
    qed
  qed
qed

lemma run_counter:
  "loop_run e w sigs st0 x0 = Running st x \<Longrightarrow> 0 \<le> sint (consequtiveNoJobs st0) \<Longrightarrow>
   sint (consequtiveNoJobs st0) + int (length sigs) < 2 ^ 63 \<Longrightarrow>
   0 \<le> sint (consequtiveNoJobs st) \<and>
   sint (consequtiveNoJobs st) \<le> sint (consequtiveNoJobs st0) + int (length sigs)"
proof (induction sigs arbitrary: st0 x0)
  case Nil
  then show ?case by simp
next
  case (Cons sig sigs)
  from Cons.prems(1) obtain st1 x1 where
    s: "loop_step e w sig st0 x0 = Running st1 x1" and r: "loop_run e w sigs st1 x1 = Running st x"
    by (auto split: loop_result.splits)
  from Cons.prems have lt: "sint (consequtiveNoJobs st0) < 2 ^ 63 - 1"
    by simp
  from step_counter [OF s Cons.prems(2) lt]
  have c: "0 \<le> sint (consequtiveNoJobs st1)"
    "sint (consequtiveNoJobs st1) \<le> sint (consequtiveNoJobs st0) + 1"
    by simp_all
  with Cons.prems(3) have "sint (consequtiveNoJobs st1) + int (length sigs) < 2 ^ 63"
    by simp
  from Cons.IH [OF r c(1) this] c(2) show ?case
    by simp
qed

text \<open>
  Claim C8. In a state that the loop reaches from its start (after fewer than
  \<open>2\<^sup>6\<^sup>3 - 2\<close> signals, so that the idle counter has not wrapped), at a tick of the timer:
  an error from the fetch (a transport error among them) is logged and resets the timer
  to 10 ms, the counter unchanged; a nil fetch adds one to the consecutive-idle counter
  and resets the timer to the entry of the ladder \<open>[0, 10, 100, 1000, 5000]\<close> ms at the
  index \<open>min (counter, 4)\<close>, for the counter after the increment; a fetched job is
  processed, the counter is reset to 0 and the timer to 0.
\<close>

theorem loop_timer_after_fetch:
  assumes "loop_run e w sigs initial_loopState x0 = Running st x"
    and "int (length sigs) < 2 ^ 63 - 2"
  shows "(tr = Some err \<longrightarrow>
            loop_step e w (timerC names tr i) st x
              = Running (st\<lparr> timer := 10 * Millisecond \<rparr>) (logError ''worker.fetch'' err x))
       \<and> (fetchJob e w names tr x = (Inl err, x1) \<longrightarrow>
            loop_step e w (timerC names tr i) st x
              = Running (st\<lparr> timer := 10 * Millisecond \<rparr>) (logError ''worker.fetch'' err x1))
       \<and> (fetchJob e w names tr x = (Inr None, x1) \<longrightarrow>
            loop_step e w (timerC names tr i) st x
              = Running
                  ((if drained st then st\<lparr> drained := False \<rparr> else st)
                     \<lparr> consequtiveNoJobs := consequtiveNoJobs st + 1,
                       timer := (sleepBackoffsInMilliseconds
                                   ! min (nat (sint (consequtiveNoJobs st + 1))) 4) * Millisecond \<rparr>)
                  (if drained st then emit DoneDraining x1 else x1)
            \<and> sint (consequtiveNoJobs st + 1) = sint (consequtiveNoJobs st) + 1)
       \<and> (fetchJob e w names tr x = (Inr (Some job), x1) \<longrightarrow>
            loop_step e w (timerC names tr i) st x
              = Running (st\<lparr> consequtiveNoJobs := 0, timer := 0 \<rparr>)
                  (snd (processJob e w job i x1)))
       \<and> sleepBackoffsInMilliseconds = [0, 10, 100, 1000, 5000]
       \<and> sint (10 * Millisecond) = 10 * 1000000
       \<and> sint Millisecond = 1000000"
proof -
  have c0: "0 \<le> sint (consequtiveNoJobs initial_loopState)"
    by (simp add: initial_loopState_def)
  have "sint (consequtiveNoJobs initial_loopState) + int (length sigs) < 2 ^ 63"
    using assms(2) by (simp add: initial_loopState_def)
  from run_counter [OF assms(1) c0 this] assms(2)
  have c: "0 \<le> sint (consequtiveNoJobs st)" "sint (consequtiveNoJobs st) < 2 ^ 63 - 1"
    by (simp_all add: initial_loopState_def)
  have 1: "tr = Some err \<longrightarrow>
            loop_step e w (timerC names tr i) st x
              = Running (st\<lparr> timer := 10 * Millisecond \<rparr>) (logError ''worker.fetch'' err x)"
    by (simp add: loop_step_def fetchJob_def)
  have 2: "fetchJob e w names tr x = (Inl err, x1) \<longrightarrow>
            loop_step e w (timerC names tr i) st x
              = Running (st\<lparr> timer := 10 * Millisecond \<rparr>) (logError ''worker.fetch'' err x1)"
    using step_fetch_error [of e w names tr x err x1 i st] by blast
  have 3: "fetchJob e w names tr x = (Inr None, x1) \<longrightarrow>
            loop_step e w (timerC names tr i) st x
              = Running
                  ((if drained st then st\<lparr> drained := False \<rparr> else st)
                     \<lparr> consequtiveNoJobs := consequtiveNoJobs st + 1,
                       timer := (sleepBackoffsInMilliseconds
                                   ! min (nat (sint (consequtiveNoJobs st + 1))) 4) * Millisecond \<rparr>)
                  (if drained st then emit DoneDraining x1 else x1)
            \<and> sint (consequtiveNoJobs st + 1) = sint (consequtiveNoJobs st) + 1"
    using step_fetch_nil [of e w names tr x x1 st i] sint_succ_64 [of "consequtiveNoJobs st"] c
    by blast
  have 4: "fetchJob e w names tr x = (Inr (Some job), x1) \<longrightarrow>
            loop_step e w (timerC names tr i) st x
              = Running (st\<lparr> consequtiveNoJobs := 0, timer := 0 \<rparr>)
                  (snd (processJob e w job i x1))"
    using step_fetch_job [of e w names tr x job x1 i st] by blast
  have 5: "sleepBackoffsInMilliseconds = [0, 10, 100, 1000, 5000]"
    by (simp add: sleepBackoffsInMilliseconds_def)
  have 6: "sint (10 * Millisecond) = 10 * 1000000" "sint Millisecond = 1000000"
    by (simp_all add: Millisecond_def)
  from 1 2 3 4 5 6 show ?thesis
    by (intro conjI)
qed

theorem loop_timer_after_fetch_witness:
  "loop_run ex_env ex_worker [timerC [''email''] None (ex_inputs TimedOut)]
       initial_loopState initial_world
     = Running \<lparr> drained = False, consequtiveNoJobs = 1, timer = 10000000 \<rparr> initial_world \<and>
   int (length [timerC [''email''] None (ex_inputs TimedOut)]) < 2 ^ 63 - 2 \<and>
   fetchJob ex_env ex_worker [''email''] None initial_world = (Inr None, initial_world) \<and>
   loop_step ex_env ex_worker (timerC [''email''] None (ex_inputs TimedOut))
       \<lparr> drained = False, consequtiveNoJobs = 1, timer = 10000000 \<rparr> initial_world
     = Running \<lparr> drained = False, consequtiveNoJobs = 2, timer = 100000000 \<rparr> initial_world \<and>
   loop_step ex_env ex_worker (timerC [''email''] (Some (errorString ''EOF'')) (ex_inputs TimedOut))
       \<lparr> drained = False, consequtiveNoJobs = 1, timer = 10000000 \<rparr> initial_world
     = Running \<lparr> drained = False, consequtiveNoJobs = 1, timer = 10000000 \<rparr>
         (logError ''worker.fetch'' (errorString ''EOF'') initial_world)"
proof -
  let ?tick = "timerC [''email''] None (ex_inputs TimedOut)"
  let ?st1 = "\<lparr> drained = False, consequtiveNoJobs = 1, timer = 10000000 \<rparr>"
  have f: "fetchJob ex_env ex_worker [''email''] None initial_world = (Inr None, initial_world)"
    by (simp add: fetchJob_def samples_def List.map_filter_simps ex_worker_def sampler_add_def
          ex_jobType_def initial_world_def empty_redis_def)
  have r: "loop_run ex_env ex_worker [?tick] initial_loopState initial_world
             = Running ?st1 initial_world"
    by (simp add: loop_step_def f Let_def initial_loopState_def sleepBackoffsInMilliseconds_def
          Millisecond_def)
  have l: "int (length [?tick]) < 2 ^ 63 - 2"
    by simp
  note T = loop_timer_after_fetch [OF r l, where names = "[''email'']"
      and i = "ex_inputs TimedOut" and ?x1.0 = initial_world]
  have "loop_step ex_env ex_worker ?tick ?st1 initial_world
          = Running
              ((if drained ?st1 then ?st1\<lparr> drained := False \<rparr> else ?st1)
                 \<lparr> consequtiveNoJobs := consequtiveNoJobs ?st1 + 1,
                   timer := (sleepBackoffsInMilliseconds
                               ! min (nat (sint (consequtiveNoJobs ?st1 + 1))) 4) * Millisecond \<rparr>)
              (if drained ?st1 then emit DoneDraining initial_world else initial_world)"
    using T [where tr = None] f by blast
  then have a: "loop_step ex_env ex_worker ?tick ?st1 initial_world
          = Running \<lparr> drained = False, consequtiveNoJobs = 2, timer = 100000000 \<rparr> initial_world"
    by (simp add: sleepBackoffsInMilliseconds_def Millisecond_def)
  have "loop_step ex_env ex_worker (timerC [''email''] (Some (errorString ''EOF'')) (ex_inputs TimedOut))
          ?st1 initial_world
        = Running (?st1\<lparr> timer := 10 * Millisecond \<rparr>)
            (logError ''worker.fetch'' (errorString ''EOF'') initial_world)"
    using T [where tr = "Some (errorString ''EOF'')" and err = "errorString ''EOF''"] by blast
  then have b: "loop_step ex_env ex_worker
          (timerC [''email''] (Some (errorString ''EOF'')) (ex_inputs TimedOut)) ?st1 initial_world
        = Running ?st1 (logError ''worker.fetch'' (errorString ''EOF'') initial_world)"
    by (simp add: Millisecond_def)
  from r l f a b show ?thesis
    by (intro conjI)
qed

section \<open>Registration\<close>

lemma applyDefaults_ok:
  assumes "Priority jobOpts \<le> 100000"
  shows "applyDefaultsAndValidate jobOpts
           = Inr (jobOpts\<lparr> Priority := (if Priority jobOpts = 0 then 1 else Priority jobOpts),
                           MaxFails := (if MaxFails jobOpts = 0 then 4 else MaxFails jobOpts) \<rparr>)"
  using assms by (auto simp add: applyDefaultsAndValidate_def Let_def not_less)

lemma applyDefaults_panic:
  assumes "100000 < Priority jobOpts"
  shows "applyDefaultsAndValidate jobOpts
           = Inl (PanicString ''work: JobOptions.Priority must be between 1 and 100000'')"
proof -
  from assms have "Priority jobOpts \<noteq> 0"
    by auto
  with assms show ?thesis
    by (simp add: applyDefaultsAndValidate_def Let_def)
qed

lemma funcToMiddleware_invalid:
  "f \<in> set fns \<Longrightarrow> validateMiddlewareType ctxType f = Inl q \<Longrightarrow>
   \<exists>p. funcToMiddleware fns ctxType = Inl p"
  by (induction fns) (auto split: sum.splits)

lemma invalid_middleware_panics:
  assumes "f = None \<or> (\<exists>t. f = Some t \<and> \<not> isValidMiddlewareType ctxType t)"
  shows "\<exists>q. validateMiddlewareType ctxType f = Inl q"
  using assms by (auto simp add: validateMiddlewareType_def)

lemma invalid_handler_panics:
  assumes "fn = None \<or> (\<exists>t. fn = Some t \<and> \<not> isValidHandlerType ctxType t)"
  shows "\<exists>q. validateHandlerType ctxType fn = Inl q"
  using assms by (auto simp add: validateHandlerType_def)

lemma registered_options:
  assumes "JobWithOptionsAndMiddlewares wp name jobOpts fn fns hks = Inr wp'"
  shows "\<exists>jt. wpJobTypes wp' name = Some jt \<and>
           Priority jt = (if Priority jobOpts = 0 then 1 else Priority jobOpts) \<and>
           MaxFails jt = (if MaxFails jobOpts = 0 then 4 else MaxFails jobOpts) \<and>
           1 \<le> Priority jt \<and> Priority jt \<le> 100000"
proof -
  from assms obtain opts where o: "applyDefaultsAndValidate jobOpts = Inr opts"
    by (auto simp add: JobWithOptionsAndMiddlewares_def split: sum.splits)
  then have le: "Priority jobOpts \<le> 100000"
    using applyDefaults_panic [of jobOpts] by (cases "Priority jobOpts \<le> 100000") auto
  from o applyDefaults_ok [OF le]
  have opts: "opts = jobOpts\<lparr> Priority := (if Priority jobOpts = 0 then 1 else Priority jobOpts),
                           MaxFails := (if MaxFails jobOpts = 0 then 4 else MaxFails jobOpts) \<rparr>"
    by simp
  have p1: "1 \<le> Priority opts"
    using opts by (auto simp add: word_le_nat_alt unat_gt_0 Suc_le_eq)
  have p2: "Priority opts \<le> 100000"
    using opts le by auto
  from assms o obtain jm hm where
    "wpJobTypes wp' name = Some (JobOptions.extend opts
        (jobType.fields name (fn = Some (FuncT [JobPtrT] [errorT])) (the fn) jm hm))"
    by (auto simp add: JobWithOptionsAndMiddlewares_def Let_def split: sum.splits)
  then show ?thesis
    using opts p1 p2
    by (auto simp add: JobOptions.defs jobType.defs)
qed

text \<open>
  Claim C9. \<open>applyDefaultsAndValidate\<close> turns a priority of 0 into 1 and a \<open>MaxFails\<close> of
  0 into 4, and a job type that is registered carries these values, with a priority
  between 1 and 100000. Each of the following panics at once (the result is a panic, no
  pool): registering a job with a priority above 100000; registering a job whose handler
  is nil or has an invalid signature; registering a job, or adding pool middleware or
  hooks, with a middleware that is nil or has an invalid signature; creating a pool
  whose context is nil or not a struct type.
\<close>

theorem registration_defaults_and_panics:
  "(Priority jobOpts \<le> 100000 \<longrightarrow>
      applyDefaultsAndValidate jobOpts
        = Inr (jobOpts\<lparr> Priority := (if Priority jobOpts = 0 then 1 else Priority jobOpts),
                        MaxFails := (if MaxFails jobOpts = 0 then 4 else MaxFails jobOpts) \<rparr>))
 \<and> (JobWithOptionsAndMiddlewares wp name jobOpts fn fns hks = Inr wp' \<longrightarrow>
      (\<exists>jt. wpJobTypes wp' name = Some jt \<and>
            Priority jt = (if Priority jobOpts = 0 then 1 else Priority jobOpts) \<and>
            MaxFails jt = (if MaxFails jobOpts = 0 then 4 else MaxFails jobOpts) \<and>
            1 \<le> Priority jt \<and> Priority jt \<le> 100000))
 \<and> (100000 < Priority jobOpts \<longrightarrow>
      JobWithOptionsAndMiddlewares wp name jobOpts fn fns hks
        = Inl (PanicString ''work: JobOptions.Priority must be between 1 and 100000''))
 \<and> (fn = None \<or> (\<exists>t. fn = Some t \<and> \<not> isValidHandlerType (wpContextType wp) t) \<longrightarrow>
      (\<exists>p. JobWithOptionsAndMiddlewares wp name jobOpts fn fns hks = Inl p))
 \<and> (f \<in> set (fns @ hks) \<and>
      (f = None \<or> (\<exists>t. f = Some t \<and> \<not> isValidMiddlewareType (wpContextType wp) t)) \<longrightarrow>
      (\<exists>p. JobWithOptionsAndMiddlewares wp name jobOpts fn fns hks = Inl p))
 \<and> (f \<in> set fns \<and>
      (f = None \<or> (\<exists>t. f = Some t \<and> \<not> isValidMiddlewareType (wpContextType wp) t)) \<longrightarrow>
      (\<exists>p. Middlewares wp fns = Inl p) \<and> (\<exists>p. Hooks wp fns = Inl p))
 \<and> (ctx = None \<or> (\<exists>t. ctx = Some t \<and> Kind_of t \<noteq> Struct) \<longrightarrow>
      (\<exists>p. NewWorkerPool ids ctx conc ns pool = Inl p))
 \<and> (ctx = Some t \<and> Kind_of t \<noteq> Struct \<and> pool = Some rp \<longrightarrow>
      NewWorkerPool ids ctx conc ns pool
        = Inl (PanicString ''work: Context needs to be a struct type''))"
proof -
  have 1: "Priority jobOpts \<le> 100000 \<longrightarrow>
      applyDefaultsAndValidate jobOpts
        = Inr (jobOpts\<lparr> Priority := (if Priority jobOpts = 0 then 1 else Priority jobOpts),
                        MaxFails := (if MaxFails jobOpts = 0 then 4 else MaxFails jobOpts) \<rparr>)"
    using applyDefaults_ok [of jobOpts] by blast
  have 2: "JobWithOptionsAndMiddlewares wp name jobOpts fn fns hks = Inr wp' \<longrightarrow>
      (\<exists>jt. wpJobTypes wp' name = Some jt \<and>
            Priority jt = (if Priority jobOpts = 0 then 1 else Priority jobOpts) \<and>
            MaxFails jt = (if MaxFails jobOpts = 0 then 4 else MaxFails jobOpts) \<and>
            1 \<le> Priority jt \<and> Priority jt \<le> 100000)"
    using registered_options [of wp name jobOpts fn fns hks wp'] by blast
  have 3: "100000 < Priority jobOpts \<longrightarrow>
      JobWithOptionsAndMiddlewares wp name jobOpts fn fns hks
        = Inl (PanicString ''work: JobOptions.Priority must be between 1 and 100000'')"
    using applyDefaults_panic [of jobOpts]
    by (simp add: JobWithOptionsAndMiddlewares_def)
  have 4: "fn = None \<or> (\<exists>t. fn = Some t \<and> \<not> isValidHandlerType (wpContextType wp) t) \<longrightarrow>
      (\<exists>p. JobWithOptionsAndMiddlewares wp name jobOpts fn fns hks = Inl p)"
  proof
    assume "fn = None \<or> (\<exists>t. fn = Some t \<and> \<not> isValidHandlerType (wpContextType wp) t)"
    from invalid_handler_panics [OF this] obtain q where
      "validateHandlerType (wpContextType wp) fn = Inl q" ..
    then show "\<exists>p. JobWithOptionsAndMiddlewares wp name jobOpts fn fns hks = Inl p"
      by (simp add: JobWithOptionsAndMiddlewares_def split: sum.splits)
  qed
  have mw: "\<exists>p. funcToMiddleware gs (wpContextType wp) = Inl p"
    if "f \<in> set gs"
      and "f = None \<or> (\<exists>t. f = Some t \<and> \<not> isValidMiddlewareType (wpContextType wp) t)"
    for gs
  proof -
    from invalid_middleware_panics [OF that(2)] obtain q where
      "validateMiddlewareType (wpContextType wp) f = Inl q" ..
    with that(1) show ?thesis
      by (rule funcToMiddleware_invalid)
  qed
  have 5: "f \<in> set (fns @ hks) \<and>
      (f = None \<or> (\<exists>t. f = Some t \<and> \<not> isValidMiddlewareType (wpContextType wp) t)) \<longrightarrow>
      (\<exists>p. JobWithOptionsAndMiddlewares wp name jobOpts fn fns hks = Inl p)"
  proof
    assume a: "f \<in> set (fns @ hks) \<and>
      (f = None \<or> (\<exists>t. f = Some t \<and> \<not> isValidMiddlewareType (wpContextType wp) t))"
    then have "f \<in> set fns \<or> f \<in> set hks"
      by simp
    then have "(\<exists>p. funcToMiddleware fns (wpContextType wp) = Inl p)
               \<or> (\<exists>p. funcToMiddleware hks (wpContextType wp) = Inl p)"
      using mw a by blast
    then show "\<exists>p. JobWithOptionsAndMiddlewares wp name jobOpts fn fns hks = Inl p"
      by (auto simp add: JobWithOptionsAndMiddlewares_def split: sum.splits)
  qed
  have 6: "f \<in> set fns \<and>
      (f = None \<or> (\<exists>t. f = Some t \<and> \<not> isValidMiddlewareType (wpContextType wp) t)) \<longrightarrow>
      (\<exists>p. Middlewares wp fns = Inl p) \<and> (\<exists>p. Hooks wp fns = Inl p)"
  proof
    assume "f \<in> set fns \<and>
      (f = None \<or> (\<exists>t. f = Some t \<and> \<not> isValidMiddlewareType (wpContextType wp) t))"
    then have "\<exists>p. funcToMiddleware fns (wpContextType wp) = Inl p"
      using mw by blast
    then show "(\<exists>p. Middlewares wp fns = Inl p) \<and> (\<exists>p. Hooks wp fns = Inl p)"
      by (auto simp add: Middlewares_def Hooks_def)
  qed
  have 7: "ctx = None \<or> (\<exists>t. ctx = Some t \<and> Kind_of t \<noteq> Struct) \<longrightarrow>
      (\<exists>p. NewWorkerPool ids ctx conc ns pool = Inl p)"
    by (auto simp add: NewWorkerPool_def validateContextType_def split: option.splits)
  have 8: "ctx = Some t \<and> Kind_of t \<noteq> Struct \<and> pool = Some rp \<longrightarrow>
      NewWorkerPool ids ctx conc ns pool
        = Inl (PanicString ''work: Context needs to be a struct type'')"
    by (auto simp add: NewWorkerPool_def validateContextType_def)
  from 1 2 3 4 5 6 7 8 show ?thesis
    by (intro conjI)
qed

theorem registration_defaults_and_panics_witness:
  "Priority zero_JobOptions \<le> 100000 \<and>
   applyDefaultsAndValidate zero_JobOptions = Inr (zero_JobOptions\<lparr> Priority := 1, MaxFails := 4 \<rparr>) \<and>
   (\<exists>wp'. JobWithOptionsAndMiddlewares ex_pool ''email'' zero_JobOptions (Some ex_handler) [] []
            = Inr wp' \<and>
          (\<exists>jt. wpJobTypes wp' ''email'' = Some jt \<and> Priority jt = 1 \<and> MaxFails jt = 4)) \<and>
   100000 < Priority (zero_JobOptions\<lparr> Priority := 100001 \<rparr>) \<and>
   JobWithOptionsAndMiddlewares ex_pool ''email'' (zero_JobOptions\<lparr> Priority := 100001 \<rparr>)
       (Some ex_handler) [] []
     = Inl (PanicString ''work: JobOptions.Priority must be between 1 and 100000'') \<and>
   \<not> isValidHandlerType (wpContextType ex_pool) (FuncT [BasicT ''int''] [errorT]) \<and>
   (\<exists>p. JobWithOptionsAndMiddlewares ex_pool ''email'' zero_JobOptions
          (Some (FuncT [BasicT ''int''] [errorT])) [] [] = Inl p) \<and>
   \<not> isValidMiddlewareType (wpContextType ex_pool) ex_handler \<and>
   (\<exists>p. JobWithOptionsAndMiddlewares ex_pool ''email'' zero_JobOptions (Some ex_handler)
          [Some ex_handler] [] = Inl p) \<and>
   (\<exists>p. Middlewares ex_pool [Some ex_handler] = Inl p) \<and>
   Kind_of (PtrT (StructT ''main.Context'')) \<noteq> Struct \<and>
   NewWorkerPool (\<lambda>k. ''id'') (Some (PtrT (StructT ''main.Context''))) 1 ''ns''
       (Some (RedisPool ''redis''))
     = Inl (PanicString ''work: Context needs to be a struct type'')"
proof -
  have p0: "Priority zero_JobOptions \<le> 100000"
    by (simp add: zero_JobOptions_def)
  have p1: "100000 < Priority (zero_JobOptions\<lparr> Priority := 100001 \<rparr>)"
    by simp
  have h: "\<not> isValidHandlerType (wpContextType ex_pool) (FuncT [BasicT ''int''] [errorT])"
    by (simp add: isValidHandlerType_def JobPtrT_def)
  have m: "\<not> isValidMiddlewareType (wpContextType ex_pool) ex_handler"
    by (simp add: isValidMiddlewareType_def ex_handler_def)
  have k: "Kind_of (PtrT (StructT ''main.Context'')) \<noteq> Struct"
    by simp
  have a: "applyDefaultsAndValidate zero_JobOptions
             = Inr (zero_JobOptions\<lparr> Priority := 1, MaxFails := 4 \<rparr>)"
    using registration_defaults_and_panics [where jobOpts = zero_JobOptions] p0
    by (simp add: zero_JobOptions_def)
  have v: "isValidHandlerType (wpContextType ex_pool) ex_handler"
    by (simp add: isValidHandlerType_def ex_handler_def)
  obtain wp' where r: "JobWithOptionsAndMiddlewares ex_pool ''email'' zero_JobOptions
      (Some ex_handler) [] [] = Inr wp'"
    using a v by (simp add: JobWithOptionsAndMiddlewares_def validateHandlerType_def Let_def)
  from registration_defaults_and_panics [where jobOpts = zero_JobOptions and wp = ex_pool
      and name = "''email''" and fn = "Some ex_handler" and fns = "[]" and hks = "[]"
      and wp' = wp'] r
  have "\<exists>jt. wpJobTypes wp' ''email'' = Some jt \<and>
            Priority jt = (if Priority zero_JobOptions = 0 then 1 else Priority zero_JobOptions) \<and>
            MaxFails jt = (if MaxFails zero_JobOptions = 0 then 4 else MaxFails zero_JobOptions) \<and>
            1 \<le> Priority jt \<and> Priority jt \<le> 100000"
    by blast
  then have "\<exists>jt. wpJobTypes wp' ''email'' = Some jt \<and> Priority jt = 1 \<and> MaxFails jt = 4"
    by (auto simp add: zero_JobOptions_def)
  with r have b: "\<exists>wp'. JobWithOptionsAndMiddlewares ex_pool ''email'' zero_JobOptions
            (Some ex_handler) [] [] = Inr wp' \<and>
          (\<exists>jt. wpJobTypes wp' ''email'' = Some jt \<and> Priority jt = 1 \<and> MaxFails jt = 4)"
    by blast
  have c: "JobWithOptionsAndMiddlewares ex_pool ''email'' (zero_JobOptions\<lparr> Priority := 100001 \<rparr>)
       (Some ex_handler) [] []
     = Inl (PanicString ''work: JobOptions.Priority must be between 1 and 100000'')"
    using registration_defaults_and_panics [where jobOpts = "zero_JobOptions\<lparr> Priority := 100001 \<rparr>"
      and wp = ex_pool and name = "''email''" and fn = "Some ex_handler" and fns = "[]"
      and hks = "[]"] p1
    by blast
  have d: "\<exists>p. JobWithOptionsAndMiddlewares ex_pool ''email'' zero_JobOptions
          (Some (FuncT [BasicT ''int''] [errorT])) [] [] = Inl p"
    using registration_defaults_and_panics [where jobOpts = zero_JobOptions
      and wp = ex_pool and name = "''email''" and fn = "Some (FuncT [BasicT ''int''] [errorT])"
      and fns = "[]" and hks = "[]"] h
    by blast
  have e: "\<exists>p. JobWithOptionsAndMiddlewares ex_pool ''email'' zero_JobOptions (Some ex_handler)
          [Some ex_handler] [] = Inl p"
    using registration_defaults_and_panics [where jobOpts = zero_JobOptions
      and wp = ex_pool and name = "''email''" and fn = "Some ex_handler"
      and fns = "[Some ex_handler]" and hks = "[]" and f = "Some ex_handler"] m
    by simp
  have f: "\<exists>p. Middlewares ex_pool [Some ex_handler] = Inl p"
    using registration_defaults_and_panics [where wp = ex_pool
      and fns = "[Some ex_handler]" and f = "Some ex_handler"] m
    by simp
  have g: "NewWorkerPool (\<lambda>k. ''id'') (Some (PtrT (StructT ''main.Context''))) 1 ''ns''
       (Some (RedisPool ''redis''))
     = Inl (PanicString ''work: Context needs to be a struct type'')"
    using registration_defaults_and_panics [where ctx = "Some (PtrT (StructT ''main.Context''))"
      and t = "PtrT (StructT ''main.Context'')" and pool = "Some (RedisPool ''redis'')"
      and rp = "RedisPool ''redis''" and ids = "\<lambda>k. ''id''" and conc = 1 and ns = "''ns''"] k
    by blast
  from p0 a b p1 c h d m e f k g show ?thesis
    by (intro conjI)
qed

end
